theory Spec2Isabelle
  imports Main
begin

section \<open>JavaScript values\<close>

text \<open>
  The values that flow through \<^verbatim>\<open>server.js\<close>: parsed request bodies, gateway response
  bodies and Firestore document fields. Numbers are the integers (amounts are minor
  units); \<open>JNaN\<close> is what \<^verbatim>\<open>parseInt\<close> yields on text without digits. \<open>JTimestamp t\<close> is a
  Firestore timestamp (milliseconds since the epoch), \<open>JIso t\<close> the string
  \<^verbatim>\<open>toDate().toISOString()\<close> renders for it, and \<open>JJson v\<close> the string
  \<^verbatim>\<open>JSON.stringify(v)\<close>. Objects keep their keys in insertion order.
\<close>

datatype jsval =
    JUndefined
  | JNull
  | JBool bool
  | JNum int
  | JNaN
  | JStr string
  | JTimestamp nat
  | JIso nat
  | JJson jsval
  | JArr "jsval list"
  | JObj "(string \<times> jsval) list"

text \<open>Truthiness, as \<^verbatim>\<open>!x\<close>, \<^verbatim>\<open>x || y\<close> and \<^verbatim>\<open>x ? a : b\<close> test it.\<close>

fun truthy :: "jsval \<Rightarrow> bool" where
  "truthy JUndefined = False"
| "truthy JNull = False"
| "truthy (JBool b) = b"
| "truthy (JNum n) = (n \<noteq> 0)"
| "truthy JNaN = False"
| "truthy (JStr s) = (s \<noteq> [])"
| "truthy (JTimestamp t) = True"
| "truthy (JIso t) = True"
| "truthy (JJson v) = True"
| "truthy (JArr xs) = True"
| "truthy (JObj fs) = True"

text \<open>\<^verbatim>\<open>a || b\<close>\<close>

definition js_or :: "jsval \<Rightarrow> jsval \<Rightarrow> jsval" where
  "js_or a b = (if truthy a then a else b)"

text \<open>
  An exception value: \<^verbatim>\<open>error.message\<close> and \<^verbatim>\<open>error.response?.data\<close> (which is
  \<^verbatim>\<open>undefined\<close> unless the HTTP client raised for a response with an error status).
\<close>

datatype js_error = Error (message: string) (response_data: jsval)

definition TypeError :: "string \<Rightarrow> js_error" where
  "TypeError m = Error m JUndefined"

text \<open>Reading a key of an object literal or of \<^verbatim>\<open>doc.data()\<close>: \<^verbatim>\<open>undefined\<close> when absent.\<close>

definition field :: "(string \<times> jsval) list \<Rightarrow> string \<Rightarrow> jsval" where
  "field fs k = (case map_of fs k of None \<Rightarrow> JUndefined | Some v \<Rightarrow> v)"

text \<open>A name between single quotes, as the engine prints it in a TypeError.\<close>

definition quoted :: "string \<Rightarrow> string" where
  "quoted k = CHR 0x27 # k @ [CHR 0x27]"

text \<open>
  \<^verbatim>\<open>v.k\<close> for the keys the server reads (\<^verbatim>\<open>status\<close>, \<^verbatim>\<open>data\<close>, \<^verbatim>\<open>message\<close>,
  \<^verbatim>\<open>access_token\<close>, \<^verbatim>\<open>grant_id\<close>, \<^verbatim>\<open>token\<close>): a TypeError on \<^verbatim>\<open>null\<close> and
  \<^verbatim>\<open>undefined\<close>, the stored value on an object, \<^verbatim>\<open>undefined\<close> on every other value.
\<close>

fun read_prop :: "jsval \<Rightarrow> string \<Rightarrow> js_error + jsval" where
  "read_prop JUndefined k =
     Inl (TypeError (''Cannot read properties of undefined (reading '' @ quoted k @ '')''))"
| "read_prop JNull k =
     Inl (TypeError (''Cannot read properties of null (reading '' @ quoted k @ '')''))"
| "read_prop (JObj fs) k = Inr (field fs k)"
| "read_prop v k = Inr JUndefined"

text \<open>\<^verbatim>\<open>v?.k\<close>\<close>

fun opt_prop :: "jsval \<Rightarrow> string \<Rightarrow> jsval" where
  "opt_prop (JObj fs) k = field fs k"
| "opt_prop v k = JUndefined"

text \<open>Sequencing of steps that may throw.\<close>

definition and_then :: "js_error + 'a \<Rightarrow> ('a \<Rightarrow> js_error + 'b) \<Rightarrow> js_error + 'b" where
  "and_then r f = (case r of Inl e \<Rightarrow> Inl e | Inr x \<Rightarrow> f x)"

text \<open>\<^verbatim>\<open>error.response?.data || error.message\<close>\<close>

definition details :: "js_error \<Rightarrow> jsval" where
  "details e = js_or (response_data e) (JStr (message e))"

text \<open>\<^verbatim>\<open>error.response?.data?.message || error.message\<close>\<close>

definition error_message :: "js_error \<Rightarrow> jsval" where
  "error_message e = js_or (opt_prop (response_data e) ''message'') (JStr (message e))"

section \<open>Server state and effects\<close>

text \<open>
  A Firestore collection is the list of its documents, each an id with its fields.
  Outgoing HTTP requests (path under \<^verbatim>\<open>BASE_URL\<close>, bearer token, body) and
  \<^verbatim>\<open>console.error\<close> lines are appended to \<open>trace\<close> in the order they happen.
\<close>

type_synonym document = "(string \<times> jsval) list"
type_synonym collection = "(string \<times> document) list"

datatype effect =
    HttpPost string jsval jsval
  | ConsoleError string jsval

record server =
  CLIENT_ID :: jsval
  CLIENT_SECRET :: jsval
  APP_URL :: "string option"
  accessToken :: jsval
  tokenExpiry :: "nat option"
  withdrawals :: collection
  payments :: collection
  trace :: "effect list"

definition emit :: "effect \<Rightarrow> server \<Rightarrow> server" where
  "emit x s = s\<lparr>trace := trace s @ [x]\<rparr>"

text \<open>\<^verbatim>\<open>res.status(c).json(v)\<close>; \<^verbatim>\<open>res.json(v)\<close> is status 200.\<close>

record response =
  code :: nat
  json :: jsval

definition respond :: "nat \<Rightarrow> jsval \<Rightarrow> response" where
  "respond c v = \<lparr>code = c, json = v\<rparr>"

section \<open>Access token cache\<close>

text \<open>
  What one call of \<^verbatim>\<open>getAccessToken\<close> observes: the clock at the expiry test, the
  outcome of the POST to the token endpoint (\<open>Inl\<close> when the client raises, \<open>Inr\<close> the
  \<^verbatim>\<open>response.data\<close> otherwise) and the clock when the new expiry is computed.
\<close>

record token_env =
  clock_check :: nat
  token_post :: "js_error + jsval"
  clock_issue :: nat

text \<open>\<^verbatim>\<open>accessToken && tokenExpiry && Date.now() < tokenExpiry\<close>\<close>

definition token_live :: "token_env \<Rightarrow> server \<Rightarrow> bool" where
  "token_live env s =
     (truthy (accessToken s) \<and>
      (case tokenExpiry s of None \<Rightarrow> False | Some t \<Rightarrow> t \<noteq> 0 \<and> clock_check env < t))"

text \<open>The part of the \<^verbatim>\<open>try\<close> block after the request: the token, or what is thrown.\<close>

definition token_of_response :: "js_error + jsval \<Rightarrow> js_error + jsval" where
  "token_of_response r =
     and_then r (\<lambda>data.
     and_then (read_prop data ''status'') (\<lambda>st.
       if st = JStr ''success''
       then and_then (read_prop data ''data'') (\<lambda>d. read_prop d ''access_token'')
       else Inl (Error ''Failed to get access token'' JUndefined)))"

definition getAccessToken :: "token_env \<Rightarrow> server \<Rightarrow> (js_error + jsval) \<times> server" where
  "getAccessToken env s =
     (if token_live env s then (Inr (accessToken s), s)
      else
        let s1 = emit (HttpPost ''/access-token'' JUndefined
                   (JObj [(''client_id'', CLIENT_ID s), (''client_secret'', CLIENT_SECRET s)])) s
        in case token_of_response (token_post env) of
             Inr tok \<Rightarrow>
               (Inr tok, s1\<lparr>accessToken := tok,
                            tokenExpiry := Some (clock_issue env + 2 * 60 * 60 * 1000)\<rparr>)
           | Inl e \<Rightarrow>
               (Inl e, emit (ConsoleError ''Error getting access token:'' (details e)) s1))"

section \<open>The document store\<close>

text \<open>Setting one key: the value is replaced where the key stands, else the pair is appended.\<close>

fun put :: "'k \<Rightarrow> 'v \<Rightarrow> ('k \<times> 'v) list \<Rightarrow> ('k \<times> 'v) list" where
  "put k v [] = [(k, v)]"
| "put k v (p # ps) = (if fst p = k then (k, v) # ps else p # put k v ps)"

text \<open>\<^verbatim>\<open>{...o, ...d}\<close>, and the field merge of a Firestore \<^verbatim>\<open>update\<close>.\<close>

definition spread :: "document \<Rightarrow> document \<Rightarrow> document" where
  "spread o1 d = foldl (\<lambda>acc kv. put (fst kv) (snd kv) acc) o1 d"

text \<open>
  Each store call takes the error the store raises for it, if any (\<open>None\<close>: the call goes
  through). \<^verbatim>\<open>get\<close> yields the fields of the document or \<open>None\<close> for
  \<^verbatim>\<open>exists == false\<close>; \<^verbatim>\<open>update\<close> merges the given fields into an existing document and
  fails on a missing one; \<^verbatim>\<open>add\<close> creates a document under a new id.
\<close>

definition doc_get :: "js_error option \<Rightarrow> collection \<Rightarrow> string \<Rightarrow> js_error + document option" where
  "doc_get fault c i = (case fault of Some e \<Rightarrow> Inl e | None \<Rightarrow> Inr (map_of c i))"

definition doc_update ::
  "js_error option \<Rightarrow> collection \<Rightarrow> string \<Rightarrow> document \<Rightarrow> js_error + collection" where
  "doc_update fault c i fs =
     (case fault of
        Some e \<Rightarrow> Inl e
      | None \<Rightarrow>
          (case map_of c i of
             None \<Rightarrow> Inl (Error ''NOT_FOUND: No document to update'' JUndefined)
           | Some d \<Rightarrow> Inr (put i (spread d fs) c)))"

definition coll_add ::
  "js_error option \<Rightarrow> string \<Rightarrow> collection \<Rightarrow> document \<Rightarrow> js_error + string \<times> collection" where
  "coll_add fault new_id c d =
     (case fault of
        Some e \<Rightarrow> Inl e
      | None \<Rightarrow>
          (case map_of c new_id of
             Some d' \<Rightarrow> Inl (Error ''ALREADY_EXISTS: Document already exists'' JUndefined)
           | None \<Rightarrow> Inr (new_id, c @ [(new_id, d)])))"

section \<open>parseInt\<close>

text \<open>
  \<^verbatim>\<open>parseInt\<close> on a string: leading white space, an optional sign, an optional
  \<^verbatim>\<open>0x\<close> prefix, then the longest run of digits; \<^verbatim>\<open>NaN\<close> when there is none. Two
  limits of this model: only the ASCII white space (codes 9 to 13 and 32) is skipped, where
  the engine also skips U+00A0 and the other Unicode spaces; and the result is the exact
  integer, where the engine rounds a value above \<open>2^53\<close> to the nearest double. The
  function only computes the stored \<^verbatim>\<open>amount\<close> and \<^verbatim>\<open>payment_method_id\<close>; no theorem
  below states what these are beyond the examples.
\<close>

definition is_space :: "char \<Rightarrow> bool" where
  "is_space c = (of_char c \<in> {9, 10, 11, 12, 13, 32 :: nat})"

definition digit_val :: "nat \<Rightarrow> char \<Rightarrow> nat option" where
  "digit_val radix c =
     (let n = (of_char c :: nat);
          v = (if 48 \<le> n \<and> n \<le> 57 then Some (n - 48)
               else if 97 \<le> n \<and> n \<le> 122 then Some (n - 87)
               else if 65 \<le> n \<and> n \<le> 90 then Some (n - 55)
               else None)
      in case v of None \<Rightarrow> None | Some d \<Rightarrow> if d < radix then Some d else None)"

fun digits :: "nat \<Rightarrow> string \<Rightarrow> nat option \<Rightarrow> nat option" where
  "digits radix [] acc = acc"
| "digits radix (c # cs) acc =
     (case digit_val radix c of
        None \<Rightarrow> acc
      | Some d \<Rightarrow> digits radix cs (Some (radix * (case acc of None \<Rightarrow> 0 | Some a \<Rightarrow> a) + d)))"

definition parse_int_text :: "string \<Rightarrow> jsval" where
  "parse_int_text s =
     (let t = dropWhile is_space s;
          neg = (case t of [] \<Rightarrow> False | c # r \<Rightarrow> c = CHR ''-'');
          u = (case t of [] \<Rightarrow> [] | c # r \<Rightarrow> if c = CHR ''-'' \<or> c = CHR ''+'' then r else t);
          hex = (case u of a # b # r \<Rightarrow> a = CHR ''0'' \<and> (b = CHR ''x'' \<or> b = CHR ''X'') | _ \<Rightarrow> False)
      in case (if hex then digits 16 (drop 2 u) None else digits 10 u None) of
           None \<Rightarrow> JNaN
         | Some n \<Rightarrow> JNum (if neg then - int n else int n))"

text \<open>
  \<^verbatim>\<open>parseInt\<close> on a value of a request body: the argument is first turned into text. An
  integer prints as its digits as long as it is below \<open>10^21\<close> in size (from there on
  the engine prints an exponent and reads back the leading digit only, which this model
  does not do; numbers with a fraction are not values of \<open>jsval\<close> at all); an array
  prints its elements separated by commas, so only the first one is read; \<^verbatim>\<open>null\<close>,
  \<^verbatim>\<open>undefined\<close>, booleans and objects print as text without digits.
\<close>

fun parseInt :: "jsval \<Rightarrow> jsval" where
  "parseInt (JNum n) = JNum n"
| "parseInt (JStr s) = parse_int_text s"
| "parseInt (JArr (x # xs)) = parseInt x"
| "parseInt v = JNaN"

section \<open>POST /api/payment/create\<close>

text \<open>
  What one call observes: the token acquisition, the outcome of the POST to
  \<^verbatim>\<open>/transaction/create\<close>, and for the \<^verbatim>\<open>add\<close> to \<^verbatim>\<open>payments\<close> its fault, the id the
  store assigns and the server timestamp.
\<close>

record payment_env =
  pay_token :: token_env
  pay_post :: "js_error + jsval"
  pay_add_fault :: "js_error option"
  pay_new_id :: string
  pay_time :: nat

text \<open>\<^verbatim>\<open>process.env.APP_URL || 'https://your-app.railway.app'\<close>\<close>

definition app_url :: "server \<Rightarrow> string" where
  "app_url s =
     (case APP_URL s of
        None \<Rightarrow> ''https://your-app.railway.app''
      | Some u \<Rightarrow> if u = [] then ''https://your-app.railway.app'' else u)"

text \<open>The document written to \<^verbatim>\<open>payments\<close>; reading the gateway ids may throw.\<close>

definition payment_record :: "payment_env \<Rightarrow> document \<Rightarrow> jsval \<Rightarrow> js_error + document" where
  "payment_record env b data =
     and_then (read_prop data ''data'') (\<lambda>d.
     and_then (read_prop d ''grant_id'') (\<lambda>g.
     and_then (read_prop d ''token'') (\<lambda>t.
       Inr [(''grant_id'', g),
            (''token'', t),
            (''amount'', parseInt (field b ''amount'')),
            (''currency'', field b ''currency''),
            (''userId'', js_or (field b ''userId'') JNull),
            (''metadata'', js_or (field b ''metadata'') JNull),
            (''status'', JStr ''pending''),
            (''created_at'', JTimestamp (pay_time env))])))"

definition payment_create_try ::
  "payment_env \<Rightarrow> document \<Rightarrow> server \<Rightarrow> (js_error + response) \<times> server" where
  "payment_create_try env b s =
     (let amount = field b ''amount''; currency = field b ''currency'';
          metadata = field b ''metadata''
      in if \<not> truthy amount \<or> \<not> truthy currency
         then (Inr (respond 400 (JObj [(''error'', JStr ''Amount and currency are required'')])), s)
         else
           (case getAccessToken (pay_token env) s of
              (Inl e, s1) \<Rightarrow> (Inl e, s1)
            | (Inr token, s1) \<Rightarrow>
                (let s2 = emit (HttpPost ''/transaction/create'' token
                           (JObj [(''amount'', parseInt amount),
                                  (''currency'', currency),
                                  (''successUrl'', JStr (app_url s1 @ ''/payment/success'')),
                                  (''cancelUrl'', JStr (app_url s1 @ ''/payment/cancel'')),
                                  (''metadata'', if truthy metadata then JJson metadata else JNull)])) s1
                 in (case pay_post env of
                       Inl e \<Rightarrow> (Inl e, s2)
                     | Inr data \<Rightarrow>
                         (case read_prop data ''status'' of
                            Inl e \<Rightarrow> (Inl e, s2)
                          | Inr st \<Rightarrow>
                              (if st = JStr ''success''
                               then
                                 (case and_then (payment_record env b data)
                                         (coll_add (pay_add_fault env) (pay_new_id env) (payments s2)) of
                                    Inl e \<Rightarrow> (Inl e, s2)
                                  | Inr added \<Rightarrow>
                                      (Inr (respond 200 data), s2\<lparr>payments := snd added\<rparr>))
                               else (Inr (respond 200 data), s2)))))))"

definition payment_create :: "payment_env \<Rightarrow> document \<Rightarrow> server \<Rightarrow> response \<times> server" where
  "payment_create env b s =
     (case payment_create_try env b s of
        (Inr res, s1) \<Rightarrow> (res, s1)
      | (Inl e, s1) \<Rightarrow>
          (respond 500 (JObj [(''error'', JStr ''Failed to create payment''),
                              (''details'', details e)]),
           emit (ConsoleError ''Error creating payment:'' (details e)) s1))"

section \<open>POST /api/withdrawal/request\<close>

record request_env =
  req_token :: token_env
  req_verify :: "js_error + jsval"
  req_add_fault :: "js_error option"
  req_new_id :: string
  req_time :: nat

text \<open>The document written to \<^verbatim>\<open>withdrawals\<close>.\<close>

definition withdrawal_record :: "request_env \<Rightarrow> document \<Rightarrow> jsval \<Rightarrow> document" where
  "withdrawal_record env b info =
     [(''email_or_phone'', field b ''email_or_phone''),
      (''currency'', field b ''currency''),
      (''amount'', parseInt (field b ''amount'')),
      (''payment_method_id'', parseInt (field b ''payment_method_id'')),
      (''moncash_account_number'', js_or (field b ''moncash_account_number'') JNull),
      (''userId'', js_or (field b ''userId'') JNull),
      (''userEmail'', js_or (field b ''userEmail'') JNull),
      (''receiver_info'', info),
      (''status'', JStr ''pending''),
      (''created_at'', JTimestamp (req_time env)),
      (''processed_at'', JNull),
      (''processed_by'', JNull)]"

definition submitted :: "string \<Rightarrow> response" where
  "submitted wid =
     respond 200
       (JObj [(''status'', JStr ''success''),
              (''message'', JStr ''Withdrawal request submitted. Waiting for admin approval.''),
              (''data'', JObj [(''withdrawal_id'', JStr wid), (''status'', JStr ''pending'')])])"

definition withdrawal_request_try ::
  "request_env \<Rightarrow> document \<Rightarrow> server \<Rightarrow> (js_error + response) \<times> server" where
  "withdrawal_request_try env b s =
     (let email_or_phone = field b ''email_or_phone''; currency = field b ''currency'';
          amount = field b ''amount''; payment_method_id = field b ''payment_method_id''
      in if \<not> truthy email_or_phone \<or> \<not> truthy currency \<or> \<not> truthy amount
              \<or> \<not> truthy payment_method_id
         then (Inr (respond 400 (JObj [(''error'', JStr ''Missing required fields'')])), s)
         else
           (case getAccessToken (req_token env) s of
              (Inl e, s1) \<Rightarrow> (Inl e, s1)
            | (Inr token, s1) \<Rightarrow>
                (let s2 = emit (HttpPost ''/send-money/verify-receiver'' token
                           (JObj [(''email_or_phone'', email_or_phone)])) s1
                 in (case req_verify env of
                       Inl e \<Rightarrow> (Inl e, s2)
                     | Inr data \<Rightarrow>
                         (case read_prop data ''status'' of
                            Inl e \<Rightarrow> (Inl e, s2)
                          | Inr st \<Rightarrow>
                              (if st \<noteq> JStr ''success''
                               then (Inr (respond 400 (JObj [(''error'', JStr ''Invalid receiver'')])), s2)
                               else
                                 (case and_then (read_prop data ''data'') (\<lambda>info.
                                         coll_add (req_add_fault env) (req_new_id env) (withdrawals s2)
                                           (withdrawal_record env b info)) of
                                    Inl e \<Rightarrow> (Inl e, s2)
                                  | Inr added \<Rightarrow>
                                      (Inr (submitted (fst added)),
                                       s2\<lparr>withdrawals := snd added\<rparr>))))))))"

definition withdrawal_request :: "request_env \<Rightarrow> document \<Rightarrow> server \<Rightarrow> response \<times> server" where
  "withdrawal_request env b s =
     (case withdrawal_request_try env b s of
        (Inr res, s1) \<Rightarrow> (res, s1)
      | (Inl e, s1) \<Rightarrow>
          (respond 500 (JObj [(''error'', JStr ''Failed to create withdrawal request''),
                              (''details'', details e)]),
           emit (ConsoleError ''Error creating withdrawal request:'' (details e)) s1))"

section \<open>Rendering a withdrawal record\<close>

text \<open>
  \<^verbatim>\<open>v?.toDate().toISOString()\<close>: \<^verbatim>\<open>undefined\<close> for \<^verbatim>\<open>null\<close> and \<^verbatim>\<open>undefined\<close>, the ISO
  string for a timestamp, a TypeError for any other value (it has no \<^verbatim>\<open>toDate\<close>).
\<close>

fun to_iso :: "jsval \<Rightarrow> js_error + jsval" where
  "to_iso JUndefined = Inr JUndefined"
| "to_iso JNull = Inr JUndefined"
| "to_iso (JTimestamp t) = Inr (JIso t)"
| "to_iso v = Inl (TypeError ''toDate is not a function'')"

text \<open>
  \<^verbatim>\<open>{id: doc.id, ...doc.data(), created_at: ..., processed_at: ...}\<close> of a snapshot; the
  snapshot of a missing document has no data, and reading \<^verbatim>\<open>created_at\<close> off it throws.
\<close>

definition render :: "string \<Rightarrow> document option \<Rightarrow> js_error + jsval" where
  "render i snap =
     (case snap of
        None \<Rightarrow>
          Inl (TypeError (''Cannot read properties of undefined (reading ''
                 @ quoted ''created_at'' @ '')''))
      | Some d \<Rightarrow>
          and_then (to_iso (field d ''created_at'')) (\<lambda>c.
          and_then (to_iso (field d ''processed_at'')) (\<lambda>p.
            Inr (JObj (put ''processed_at'' p (put ''created_at'' c (spread [(''id'', JStr i)] d)))))))"

section \<open>POST /api/admin/withdrawal/approve/:id\<close>

text \<open>
  What one call observes, in the order of the handler's awaits: the first read, the token
  acquisition, the POST to \<^verbatim>\<open>/send-money/create\<close>, the update to \<^verbatim>\<open>approved\<close> with its
  server timestamp, the second read, and in the \<^verbatim>\<open>catch\<close> block the update to
  \<^verbatim>\<open>failed\<close> with its server timestamp.
\<close>

record approve_env =
  ap_get_fault :: "js_error option"
  ap_token :: token_env
  ap_post :: "js_error + jsval"
  ap_update_fault :: "js_error option"
  ap_update_time :: nat
  ap_reget_fault :: "js_error option"
  ap_failed_fault :: "js_error option"
  ap_failed_time :: nat

definition requestData :: "document \<Rightarrow> jsval" where
  "requestData withdrawal =
     JObj ([(''email_or_phone'', field withdrawal ''email_or_phone''),
            (''currency'', field withdrawal ''currency''),
            (''amount'', field withdrawal ''amount''),
            (''payment_method_id'', field withdrawal ''payment_method_id'')]
           @ (if truthy (field withdrawal ''moncash_account_number'')
              then [(''moncash_account_number'', field withdrawal ''moncash_account_number'')]
              else []))"

definition approved_fields :: "approve_env \<Rightarrow> document \<Rightarrow> jsval \<Rightarrow> document" where
  "approved_fields env b data =
     [(''status'', JStr ''approved''),
      (''processed_at'', JTimestamp (ap_update_time env)),
      (''processed_by'', js_or (field b ''adminId'') (JStr ''admin'')),
      (''ezipay_response'', data)]"

definition failed_fields :: "approve_env \<Rightarrow> js_error \<Rightarrow> document" where
  "failed_fields env e =
     [(''status'', JStr ''failed''),
      (''processed_at'', JTimestamp (ap_failed_time env)),
      (''error_message'', error_message e)]"

definition approved :: "jsval \<Rightarrow> response" where
  "approved updatedData =
     respond 200 (JObj [(''status'', JStr ''success''),
                        (''message'', JStr ''Withdrawal approved and processed''),
                        (''data'', updatedData)])"

text \<open>The steps after the payout request has answered.\<close>

definition approve_record ::
  "approve_env \<Rightarrow> string \<Rightarrow> document \<Rightarrow> jsval \<Rightarrow> server \<Rightarrow> (js_error + response) \<times> server" where
  "approve_record env i b data s =
     (case doc_update (ap_update_fault env) (withdrawals s) i (approved_fields env b data) of
        Inl e \<Rightarrow> (Inl e, s)
      | Inr ws \<Rightarrow>
          (case and_then (doc_get (ap_reget_fault env) ws i) (render i) of
             Inl e \<Rightarrow> (Inl e, s\<lparr>withdrawals := ws\<rparr>)
           | Inr updatedData \<Rightarrow> (Inr (approved updatedData), s\<lparr>withdrawals := ws\<rparr>)))"

definition approve_try ::
  "approve_env \<Rightarrow> string \<Rightarrow> document \<Rightarrow> server \<Rightarrow> (js_error + response) \<times> server" where
  "approve_try env i b s =
     (case doc_get (ap_get_fault env) (withdrawals s) i of
        Inl e \<Rightarrow> (Inl e, s)
      | Inr None \<Rightarrow> (Inr (respond 404 (JObj [(''error'', JStr ''Withdrawal not found'')])), s)
      | Inr (Some withdrawal) \<Rightarrow>
          (if field withdrawal ''status'' \<noteq> JStr ''pending''
           then (Inr (respond 400 (JObj [(''error'', JStr ''Withdrawal already processed'')])), s)
           else
             (case getAccessToken (ap_token env) s of
                (Inl e, s1) \<Rightarrow> (Inl e, s1)
              | (Inr token, s1) \<Rightarrow>
                  (let s2 = emit (HttpPost ''/send-money/create'' token (requestData withdrawal)) s1
                   in (case ap_post env of
                         Inl e \<Rightarrow> (Inl e, s2)
                       | Inr data \<Rightarrow> approve_record env i b data s2)))))"

text \<open>The handler: the \<^verbatim>\<open>try\<close> block, and the \<^verbatim>\<open>catch\<close> block with its own inner \<^verbatim>\<open>try\<close>.\<close>

definition mark_failed :: "approve_env \<Rightarrow> string \<Rightarrow> js_error \<Rightarrow> server \<Rightarrow> server" where
  "mark_failed env i e s =
     (case doc_update (ap_failed_fault env) (withdrawals s) i (failed_fields env e) of
        Inr ws \<Rightarrow> s\<lparr>withdrawals := ws\<rparr>
      | Inl updateError \<Rightarrow>
          emit (ConsoleError ''Error updating failed status:'' (JStr (message updateError))) s)"

definition withdrawal_approve ::
  "approve_env \<Rightarrow> string \<Rightarrow> document \<Rightarrow> server \<Rightarrow> response \<times> server" where
  "withdrawal_approve env i b s =
     (case approve_try env i b s of
        (Inr res, s1) \<Rightarrow> (res, s1)
      | (Inl e, s1) \<Rightarrow>
          (respond 500 (JObj [(''error'', JStr ''Failed to process withdrawal''),
                              (''details'', details e)]),
           mark_failed env i e (emit (ConsoleError ''Error approving withdrawal:'' (details e)) s1)))"

section \<open>POST /api/admin/withdrawal/reject/:id\<close>

record reject_env =
  rj_get_fault :: "js_error option"
  rj_update_fault :: "js_error option"
  rj_update_time :: nat
  rj_reget_fault :: "js_error option"

definition rejected_fields :: "reject_env \<Rightarrow> document \<Rightarrow> document" where
  "rejected_fields env b =
     [(''status'', JStr ''rejected''),
      (''processed_at'', JTimestamp (rj_update_time env)),
      (''processed_by'', js_or (field b ''adminId'') (JStr ''admin'')),
      (''rejection_reason'', js_or (field b ''reason'') (JStr ''No reason provided''))]"

definition rejected :: "jsval \<Rightarrow> response" where
  "rejected updatedData =
     respond 200 (JObj [(''status'', JStr ''success''),
                        (''message'', JStr ''Withdrawal rejected''),
                        (''data'', updatedData)])"

definition reject_try ::
  "reject_env \<Rightarrow> string \<Rightarrow> document \<Rightarrow> server \<Rightarrow> (js_error + response) \<times> server" where
  "reject_try env i b s =
     (case doc_get (rj_get_fault env) (withdrawals s) i of
        Inl e \<Rightarrow> (Inl e, s)
      | Inr None \<Rightarrow> (Inr (respond 404 (JObj [(''error'', JStr ''Withdrawal not found'')])), s)
      | Inr (Some withdrawal) \<Rightarrow>
          (if field withdrawal ''status'' \<noteq> JStr ''pending''
           then (Inr (respond 400 (JObj [(''error'', JStr ''Withdrawal already processed'')])), s)
           else
             (case doc_update (rj_update_fault env) (withdrawals s) i (rejected_fields env b) of
                Inl e \<Rightarrow> (Inl e, s)
              | Inr ws \<Rightarrow>
                  (case and_then (doc_get (rj_reget_fault env) ws i) (render i) of
                     Inl e \<Rightarrow> (Inl e, s\<lparr>withdrawals := ws\<rparr>)
                   | Inr updatedData \<Rightarrow> (Inr (rejected updatedData), s\<lparr>withdrawals := ws\<rparr>)))))"

definition withdrawal_reject ::
  "reject_env \<Rightarrow> string \<Rightarrow> document \<Rightarrow> server \<Rightarrow> response \<times> server" where
  "withdrawal_reject env i b s =
     (case reject_try env i b s of
        (Inr res, s1) \<Rightarrow> (res, s1)
      | (Inl e, s1) \<Rightarrow>
          (respond 500 (JObj [(''error'', JStr ''Failed to reject withdrawal'')]),
           emit (ConsoleError ''Error rejecting withdrawal:'' (JStr (message e))) s1))"

section \<open>GET /api/admin/stats\<close>

text \<open>\<^verbatim>\<open>where('status', '==', st)\<close>, and the filter on \<^verbatim>\<open>doc.data().status\<close>.\<close>

definition with_status :: "string \<Rightarrow> collection \<Rightarrow> collection" where
  "with_status st c = filter (\<lambda>doc. field (snd doc) ''status'' = JStr st) c"

text \<open>
  The four reads are awaited together; \<open>fault\<close> is the rejection of that
  \<^verbatim>\<open>Promise.all\<close>, if any. All four see the same collection.
\<close>

definition admin_stats :: "js_error option \<Rightarrow> server \<Rightarrow> response \<times> server" where
  "admin_stats fault s =
     (case fault of
        Some e \<Rightarrow>
          (respond 500 (JObj [(''error'', JStr ''Failed to fetch statistics'')]),
           emit (ConsoleError ''Error fetching stats:'' (JStr (message e))) s)
      | None \<Rightarrow>
          (let totalSnap = withdrawals s;
               pendingSnap = with_status ''pending'' (withdrawals s);
               approvedSnap = with_status ''approved'' (withdrawals s);
               rejectedSnap = with_status ''rejected'' (withdrawals s)
           in (respond 200
                 (JObj [(''status'', JStr ''success''),
                        (''data'', JObj [(''total'', JNum (int (length totalSnap))),
                                         (''pending'', JNum (int (length pendingSnap))),
                                         (''approved'', JNum (int (length approvedSnap))),
                                         (''rejected'', JNum (int (length rejectedSnap))),
                                         (''failed'', JNum (int (length (with_status ''failed'' totalSnap))))])]),
               s)))"

section \<open>Runs of the server\<close>

text \<open>
  Payment creation and the three requests whose handlers write to \<^verbatim>\<open>withdrawals\<close>, each
  with what its handler observes of the gateway, the store and the clock. A run handles
  them one after the other: no other request changes the store between two awaits of a
  handler. The remaining routes of the server never write to \<^verbatim>\<open>withdrawals\<close>.
\<close>

datatype request =
    PaymentCreate payment_env document
  | WithdrawalRequest request_env document
  | WithdrawalApprove approve_env string document
  | WithdrawalReject reject_env string document

fun handle :: "request \<Rightarrow> server \<Rightarrow> response \<times> server" where
  "handle (PaymentCreate env b) s = payment_create env b s"
| "handle (WithdrawalRequest env b) s = withdrawal_request env b s"
| "handle (WithdrawalApprove env i b) s = withdrawal_approve env i b s"
| "handle (WithdrawalReject env i b) s = withdrawal_reject env i b s"

definition run :: "server \<Rightarrow> request list \<Rightarrow> server" where
  "run s rs = foldl (\<lambda>s r. snd (handle r s)) s rs"

section \<open>Status invariant of the withdrawals collection\<close>

definition known_status :: "jsval \<Rightarrow> bool" where
  "known_status v =
     (v = JStr ''pending'' \<or> v = JStr ''approved'' \<or> v = JStr ''rejected'' \<or> v = JStr ''failed'')"

definition statuses :: "collection \<Rightarrow> jsval list" where
  "statuses c = map (\<lambda>doc. field (snd doc) ''status'') c"

definition statuses_ok :: "collection \<Rightarrow> bool" where
  "statuses_ok c = list_all (\<lambda>doc. known_status (field (snd doc) ''status'')) c"

section \<open>Example inputs\<close>

text \<open>
  The server as the process starts it, a gateway that issues the token \<open>tok\<close>, and the
  scenario of the specification: a withdrawal of 500 HTG to \<open>a@b.com\<close> by payment method 3.
\<close>

definition server0 :: server where
  "server0 =
     \<lparr>CLIENT_ID = JStr ''merchant'', CLIENT_SECRET = JStr ''secret'', APP_URL = None,
      accessToken = JNull, tokenExpiry = None, withdrawals = [], payments = [], trace = []\<rparr>"

definition token_ok :: token_env where
  "token_ok =
     \<lparr>clock_check = 1000,
      token_post = Inr (JObj [(''status'', JStr ''success''),
                              (''data'', JObj [(''access_token'', JStr ''tok'')])]),
      clock_issue = 1000\<rparr>"

definition token_down :: token_env where
  "token_down =
     \<lparr>clock_check = 8000000, token_post = Inl (Error ''Network Error'' JUndefined),
      clock_issue = 8000000\<rparr>"

definition token_refused :: token_env where
  "token_refused =
     \<lparr>clock_check = 8000000, token_post = Inr (JObj [(''status'', JStr ''error'')]),
      clock_issue = 8000000\<rparr>"

definition server_with_token :: server where
  "server_with_token = server0\<lparr>accessToken := JStr ''tok'', tokenExpiry := Some 7201000\<rparr>"

definition request_body :: document where
  "request_body =
     [(''email_or_phone'', JStr ''a@b.com''), (''currency'', JStr ''HTG''),
      (''amount'', JNum 500), (''payment_method_id'', JNum 3)]"

definition receiver_ok :: jsval where
  "receiver_ok = JObj [(''status'', JStr ''success''), (''data'', JObj [(''name'', JStr ''Ann'')])]"

definition request_ok :: request_env where
  "request_ok =
     \<lparr>req_token = token_ok, req_verify = Inr receiver_ok,
      req_add_fault = None, req_new_id = ''w1'', req_time = 2000\<rparr>"

definition pending_doc :: document where
  "pending_doc =
     [(''email_or_phone'', JStr ''a@b.com''), (''currency'', JStr ''HTG''),
      (''amount'', JNum 500), (''payment_method_id'', JNum 3),
      (''moncash_account_number'', JNull), (''userId'', JNull), (''userEmail'', JNull),
      (''receiver_info'', JObj [(''name'', JStr ''Ann'')]),
      (''status'', JStr ''pending''), (''created_at'', JTimestamp 2000),
      (''processed_at'', JNull), (''processed_by'', JNull)]"

definition server_pending :: server where
  "server_pending = server_with_token\<lparr>withdrawals := [(''w1'', pending_doc)]\<rparr>"

definition payout_ok :: jsval where
  "payout_ok = JObj [(''status'', JStr ''success'')]"

definition payout_refused :: js_error where
  "payout_refused =
     Error ''Request failed with status code 422''
       (JObj [(''status'', JStr ''error''), (''message'', JStr ''Insufficient balance'')])"

definition store_down :: js_error where
  "store_down = Error ''14 UNAVAILABLE: The service is currently unavailable'' JUndefined"

definition approve_ok :: approve_env where
  "approve_ok =
     \<lparr>ap_get_fault = None, ap_token = token_ok, ap_post = Inr payout_ok,
      ap_update_fault = None, ap_update_time = 3000, ap_reget_fault = None,
      ap_failed_fault = None, ap_failed_time = 3000\<rparr>"

definition approve_payout_fails :: approve_env where
  "approve_payout_fails = approve_ok\<lparr>ap_post := Inl payout_refused\<rparr>"

definition payout_refused_body :: jsval where
  "payout_refused_body =
     JObj [(''status'', JStr ''error''), (''message'', JStr ''Insufficient balance'')]"

definition approve_refused_in_body :: approve_env where
  "approve_refused_in_body = approve_ok\<lparr>ap_post := Inr payout_refused_body\<rparr>"

definition wrongly_approved_doc :: document where
  "wrongly_approved_doc =
     [(''email_or_phone'', JStr ''a@b.com''), (''currency'', JStr ''HTG''),
      (''amount'', JNum 500), (''payment_method_id'', JNum 3),
      (''moncash_account_number'', JNull), (''userId'', JNull), (''userEmail'', JNull),
      (''receiver_info'', JObj [(''name'', JStr ''Ann'')]),
      (''status'', JStr ''approved''), (''created_at'', JTimestamp 2000),
      (''processed_at'', JTimestamp 3000), (''processed_by'', JStr ''admin''),
      (''ezipay_response'',
       JObj [(''status'', JStr ''error''), (''message'', JStr ''Insufficient balance'')])]"

definition approve_store_down :: approve_env where
  "approve_store_down = approve_payout_fails\<lparr>ap_failed_fault := Some store_down\<rparr>"

definition failed_doc :: document where
  "failed_doc =
     [(''email_or_phone'', JStr ''a@b.com''), (''currency'', JStr ''HTG''),
      (''amount'', JNum 500), (''payment_method_id'', JNum 3),
      (''moncash_account_number'', JNull), (''userId'', JNull), (''userEmail'', JNull),
      (''receiver_info'', JObj [(''name'', JStr ''Ann'')]),
      (''status'', JStr ''failed''), (''created_at'', JTimestamp 2000),
      (''processed_at'', JTimestamp 3000), (''processed_by'', JNull),
      (''error_message'', JStr ''Insufficient balance'')]"

definition approved_doc :: document where
  "approved_doc =
     [(''email_or_phone'', JStr ''a@b.com''), (''currency'', JStr ''HTG''),
      (''amount'', JNum 500), (''payment_method_id'', JNum 3),
      (''moncash_account_number'', JNull), (''userId'', JNull), (''userEmail'', JNull),
      (''receiver_info'', JObj [(''name'', JStr ''Ann'')]),
      (''status'', JStr ''approved''), (''created_at'', JTimestamp 2000),
      (''processed_at'', JTimestamp 3000), (''processed_by'', JStr ''admin''),
      (''ezipay_response'', JObj [(''status'', JStr ''success'')])]"

definition server_approved :: server where
  "server_approved = server_with_token\<lparr>withdrawals := [(''w1'', approved_doc)]\<rparr>"

definition approve_read_fails :: approve_env where
  "approve_read_fails = approve_ok\<lparr>ap_get_fault := Some store_down, ap_failed_time := 4000\<rparr>"

definition overwritten_doc :: document where
  "overwritten_doc =
     [(''email_or_phone'', JStr ''a@b.com''), (''currency'', JStr ''HTG''),
      (''amount'', JNum 500), (''payment_method_id'', JNum 3),
      (''moncash_account_number'', JNull), (''userId'', JNull), (''userEmail'', JNull),
      (''receiver_info'', JObj [(''name'', JStr ''Ann'')]),
      (''status'', JStr ''failed''), (''created_at'', JTimestamp 2000),
      (''processed_at'', JTimestamp 4000), (''processed_by'', JStr ''admin''),
      (''ezipay_response'', JObj [(''status'', JStr ''success'')]),
      (''error_message'', JStr ''14 UNAVAILABLE: The service is currently unavailable'')]"

definition approve_update_fails :: approve_env where
  "approve_update_fails = approve_ok\<lparr>ap_update_fault := Some store_down, ap_failed_time := 3500\<rparr>"

definition approve_all_down :: approve_env where
  "approve_all_down = approve_update_fails\<lparr>ap_failed_fault := Some store_down\<rparr>"

definition approve_reread_fails :: approve_env where
  "approve_reread_fails = approve_ok\<lparr>ap_reget_fault := Some store_down, ap_failed_time := 3500\<rparr>"

definition reject_ok :: reject_env where
  "reject_ok =
     \<lparr>rj_get_fault = None, rj_update_fault = None, rj_update_time = 5000, rj_reget_fault = None\<rparr>"

definition reject_body :: document where
  "reject_body = [(''reason'', JStr ''duplicate request''), (''adminId'', JStr ''op7'')]"

definition rejected_doc :: document where
  "rejected_doc =
     [(''email_or_phone'', JStr ''a@b.com''), (''currency'', JStr ''HTG''),
      (''amount'', JNum 500), (''payment_method_id'', JNum 3),
      (''moncash_account_number'', JNull), (''userId'', JNull), (''userEmail'', JNull),
      (''receiver_info'', JObj [(''name'', JStr ''Ann'')]),
      (''status'', JStr ''rejected''), (''created_at'', JTimestamp 2000),
      (''processed_at'', JTimestamp 5000), (''processed_by'', JStr ''op7''),
      (''rejection_reason'', JStr ''duplicate request'')]"

definition rejected_data :: jsval where
  "rejected_data =
     JObj [(''id'', JStr ''w1''),
           (''email_or_phone'', JStr ''a@b.com''), (''currency'', JStr ''HTG''),
           (''amount'', JNum 500), (''payment_method_id'', JNum 3),
           (''moncash_account_number'', JNull), (''userId'', JNull), (''userEmail'', JNull),
           (''receiver_info'', JObj [(''name'', JStr ''Ann'')]),
           (''status'', JStr ''rejected''), (''created_at'', JIso 2000),
           (''processed_at'', JIso 5000), (''processed_by'', JStr ''op7''),
           (''rejection_reason'', JStr ''duplicate request'')]"

definition negative_body :: document where
  "negative_body =
     [(''email_or_phone'', JStr ''a@b.com''), (''currency'', JStr ''HTG''),
      (''amount'', JNum (- 5)), (''payment_method_id'', JNum 3)]"

definition zero_body :: document where
  "zero_body =
     [(''email_or_phone'', JStr ''a@b.com''), (''currency'', JStr ''HTG''),
      (''amount'', JNum 0), (''payment_method_id'', JNum 3)]"

definition receiver_unknown :: jsval where
  "receiver_unknown = JObj [(''status'', JStr ''error''), (''message'', JStr ''Receiver not found'')]"

definition request_unknown :: request_env where
  "request_unknown = request_ok\<lparr>req_verify := Inr receiver_unknown\<rparr>"








definition scenario :: "request list" where
  "scenario =
     [WithdrawalRequest request_ok request_body,
      WithdrawalRequest (request_ok\<lparr>req_new_id := ''w2''\<rparr>) request_body,
      WithdrawalRequest (request_ok\<lparr>req_new_id := ''w3''\<rparr>) request_body,
      WithdrawalRequest (request_ok\<lparr>req_new_id := ''w4''\<rparr>) request_body,
      WithdrawalApprove approve_ok ''w1'' [],
      WithdrawalReject reject_ok ''w2'' reject_body,
      WithdrawalApprove approve_payout_fails ''w3'' []]"

lemmas model_defs =
  getAccessToken_def token_live_def token_of_response_def and_then_def field_def emit_def
  doc_get_def doc_update_def coll_add_def render_def spread_def respond_def js_or_def
  details_def error_message_def TypeError_def Let_def

lemmas example_defs =
  server0_def token_ok_def token_down_def server_with_token_def request_body_def
  receiver_ok_def request_ok_def pending_doc_def server_pending_def payout_ok_def
  payout_refused_def store_down_def approve_ok_def approve_payout_fails_def
  approve_store_down_def failed_doc_def approved_doc_def server_approved_def
  approve_read_fails_def overwritten_doc_def approve_update_fails_def approve_reread_fails_def
  approve_all_down_def payout_refused_body_def approve_refused_in_body_def
  wrongly_approved_doc_def

section \<open>Basic facts\<close>

lemma map_of_put: "map_of (put k v ps) = (map_of ps)(k \<mapsto> v)"
  by (induction ps) (auto simp: fun_eq_iff)

lemma field_put: "field (put k v d) k' = (if k' = k then v else field d k')"
  by (simp add: field_def map_of_put)

lemma getAccessToken_withdrawals: "withdrawals (snd (getAccessToken env s)) = withdrawals s"
  by (simp add: getAccessToken_def emit_def Let_def split: sum.splits)

lemma getAccessToken_payments: "payments (snd (getAccessToken env s)) = payments s"
  by (simp add: getAccessToken_def emit_def Let_def split: sum.splits)

section \<open>The access token cache\<close>

text \<open>
  C7. \<^verbatim>\<open>getAccessToken\<close> caches the token. With a cached token (a truthy value) and the
  clock strictly before the recorded expiry it returns that token and leaves the whole
  server state as it is: no request is sent. Otherwise it posts to the token endpoint.
  When the response reports \<^verbatim>\<open>success\<close> and carries a data object, the token read from
  it is stored and returned, and the expiry becomes the clock at that moment plus
  7200000 ms (2 hours). When the client raises (transport failure, HTTP error status) the
  same error is thrown on, and when the response does not report \<^verbatim>\<open>success\<close>, or reports
  it without a data object, an error is thrown; in these cases token and expiry stay as
  they were.
\<close>

theorem getAccessToken_pure_cache:
  "(token_live env s \<longrightarrow> getAccessToken env s = (Inr (accessToken s), s))
   \<and> (\<not> token_live env s \<longrightarrow>
        (\<exists>rest. trace (snd (getAccessToken env s)) =
           trace s @ HttpPost ''/access-token'' JUndefined
             (JObj [(''client_id'', CLIENT_ID s), (''client_secret'', CLIENT_SECRET s)]) # rest))
   \<and> (\<not> token_live env s \<and> token_post env = Inr data
        \<and> read_prop data ''status'' = Inr (JStr ''success'')
        \<and> read_prop data ''data'' = Inr d \<and> read_prop d ''access_token'' = Inr tok \<longrightarrow>
        fst (getAccessToken env s) = Inr tok
        \<and> accessToken (snd (getAccessToken env s)) = tok
        \<and> tokenExpiry (snd (getAccessToken env s)) = Some (clock_issue env + 7200000))
   \<and> (\<not> token_live env s \<and> token_post env = Inl e \<longrightarrow>
        fst (getAccessToken env s) = Inl e
        \<and> accessToken (snd (getAccessToken env s)) = accessToken s
        \<and> tokenExpiry (snd (getAccessToken env s)) = tokenExpiry s)
   \<and> (\<not> token_live env s \<and> token_post env = Inr data
        \<and> (read_prop data ''status'' \<noteq> Inr (JStr ''success'')
            \<or> read_prop data ''data'' = Inr JNull \<or> read_prop data ''data'' = Inr JUndefined) \<longrightarrow>
        (\<exists>e'. fst (getAccessToken env s) = Inl e')
        \<and> accessToken (snd (getAccessToken env s)) = accessToken s
        \<and> tokenExpiry (snd (getAccessToken env s)) = tokenExpiry s)"
proof (intro conjI impI)
  assume "token_live env s"
  then show "getAccessToken env s = (Inr (accessToken s), s)"
    by (simp add: getAccessToken_def)
next
  assume "\<not> token_live env s"
  then show "\<exists>rest. trace (snd (getAccessToken env s)) =
      trace s @ HttpPost ''/access-token'' JUndefined
        (JObj [(''client_id'', CLIENT_ID s), (''client_secret'', CLIENT_SECRET s)]) # rest"
    by (simp add: getAccessToken_def emit_def Let_def split: sum.splits)
next
  assume a: "\<not> token_live env s \<and> token_post env = Inr data
      \<and> read_prop data ''status'' = Inr (JStr ''success'')
      \<and> read_prop data ''data'' = Inr d \<and> read_prop d ''access_token'' = Inr tok"
  then have "token_of_response (token_post env) = Inr tok"
    by (simp add: token_of_response_def and_then_def)
  with a show "fst (getAccessToken env s) = Inr tok"
    and "accessToken (snd (getAccessToken env s)) = tok"
    and "tokenExpiry (snd (getAccessToken env s)) = Some (clock_issue env + 7200000)"
    by (simp_all add: getAccessToken_def emit_def Let_def)
next
  assume a: "\<not> token_live env s \<and> token_post env = Inl e"
  then have "token_of_response (token_post env) = Inl e"
    by (simp add: token_of_response_def and_then_def)
  with a show "fst (getAccessToken env s) = Inl e"
    and "accessToken (snd (getAccessToken env s)) = accessToken s"
    and "tokenExpiry (snd (getAccessToken env s)) = tokenExpiry s"
    by (simp_all add: getAccessToken_def emit_def Let_def)
next
  assume a: "\<not> token_live env s \<and> token_post env = Inr data
      \<and> (read_prop data ''status'' \<noteq> Inr (JStr ''success'')
          \<or> read_prop data ''data'' = Inr JNull \<or> read_prop data ''data'' = Inr JUndefined)"
  then have "\<exists>e'. token_of_response (token_post env) = Inl e'"
    by (auto simp: token_of_response_def and_then_def TypeError_def split: sum.splits)
  then obtain e' where "token_of_response (token_post env) = Inl e'" ..
  with a show "\<exists>e'. fst (getAccessToken env s) = Inl e'"
    and "accessToken (snd (getAccessToken env s)) = accessToken s"
    and "tokenExpiry (snd (getAccessToken env s)) = tokenExpiry s"
    by (simp_all add: getAccessToken_def emit_def Let_def)
qed

theorem getAccessToken_pure_cache_witness:
  "token_live token_ok server_with_token
   \<and> getAccessToken token_ok server_with_token = (Inr (JStr ''tok''), server_with_token)
   \<and> \<not> token_live token_ok server0
   \<and> trace (snd (getAccessToken token_ok server0)) =
       [HttpPost ''/access-token'' JUndefined
          (JObj [(''client_id'', JStr ''merchant''), (''client_secret'', JStr ''secret'')])]
   \<and> fst (getAccessToken token_ok server0) = Inr (JStr ''tok'')
   \<and> accessToken (snd (getAccessToken token_ok server0)) = JStr ''tok''
   \<and> tokenExpiry (snd (getAccessToken token_ok server0)) = Some 7201000
   \<and> \<not> token_live token_down server_with_token
   \<and> token_post token_down = Inl (Error ''Network Error'' JUndefined)
   \<and> fst (getAccessToken token_down server_with_token) = Inl (Error ''Network Error'' JUndefined)
   \<and> accessToken (snd (getAccessToken token_down server_with_token)) = JStr ''tok''
   \<and> tokenExpiry (snd (getAccessToken token_down server_with_token)) = Some 7201000
   \<and> \<not> token_live token_refused server_with_token
   \<and> token_post token_refused = Inr (JObj [(''status'', JStr ''error'')])
   \<and> fst (getAccessToken token_refused server_with_token) =
       Inl (Error ''Failed to get access token'' JUndefined)
   \<and> accessToken (snd (getAccessToken token_refused server_with_token)) = JStr ''tok''
   \<and> tokenExpiry (snd (getAccessToken token_refused server_with_token)) = Some 7201000"
  using getAccessToken_pure_cache [of token_ok server_with_token]
    getAccessToken_pure_cache [of token_ok server0
      "JObj [(''status'', JStr ''success''), (''data'', JObj [(''access_token'', JStr ''tok'')])]"
      "JObj [(''access_token'', JStr ''tok'')]" "JStr ''tok''"]
    getAccessToken_pure_cache [of token_down server_with_token _ _ _ "Error ''Network Error'' JUndefined"]
    getAccessToken_pure_cache [of token_refused server_with_token "JObj [(''status'', JStr ''error'')]"]
  by (simp add: token_refused_def model_defs example_defs)

section \<open>Approve: the pending guard and the catch block\<close>

lemma approve_try_guard:
  assumes "ap_get_fault env = None" and "map_of (withdrawals s) i = Some d"
    and "field d ''status'' \<noteq> JStr ''pending''"
  shows "approve_try env i b s =
           (Inr (respond 400 (JObj [(''error'', JStr ''Withdrawal already processed'')])), s)"
  using assms by (simp add: approve_try_def doc_get_def)

lemma approve_guard:
  assumes "ap_get_fault env = None" and "map_of (withdrawals s) i = Some d"
    and "field d ''status'' \<noteq> JStr ''pending''"
  shows "withdrawal_approve env i b s =
           (respond 400 (JObj [(''error'', JStr ''Withdrawal already processed'')]), s)"
  by (simp add: withdrawal_approve_def approve_try_guard [OF assms])

lemma failed_record:
  "field (spread d (failed_fields env e)) k =
     (if k = ''status'' then JStr ''failed''
      else if k = ''processed_at'' then JTimestamp (ap_failed_time env)
      else if k = ''error_message'' then error_message e
      else field d k)"
  by (simp add: spread_def failed_fields_def field_put)

lemma approved_record:
  "field (spread d (approved_fields env b data)) k =
     (if k = ''status'' then JStr ''approved''
      else if k = ''processed_at'' then JTimestamp (ap_update_time env)
      else if k = ''processed_by'' then js_or (field b ''adminId'') (JStr ''admin'')
      else if k = ''ezipay_response'' then data
      else field d k)"
  by (simp add: spread_def approved_fields_def field_put)

text \<open>The \<^verbatim>\<open>catch\<close> block's write, when the document is there.\<close>

lemma mark_failed_written:
  assumes "map_of (withdrawals s) i = Some d" and "ap_failed_fault env = None"
  shows "withdrawals (mark_failed env i e s) = put i (spread d (failed_fields env e)) (withdrawals s)"
  using assms by (simp add: mark_failed_def doc_update_def)

lemma mark_failed_swallowed:
  assumes "ap_failed_fault env = Some ue"
  shows "mark_failed env i e s =
           emit (ConsoleError ''Error updating failed status:'' (JStr (message ue))) s"
  using assms by (simp add: mark_failed_def doc_update_def)

text \<open>Whatever the \<^verbatim>\<open>try\<close> block of Approve does, a document that was there is still there.\<close>

lemma approve_record_keeps:
  assumes "map_of (withdrawals s) i = Some d"
  shows "\<exists>d'. map_of (withdrawals (snd (approve_record env i b data s))) i = Some d'"
  using assms
  by (auto simp: approve_record_def doc_update_def map_of_put split: option.splits sum.splits)

lemma approve_try_keeps:
  assumes "map_of (withdrawals s) i = Some d"
  shows "\<exists>d'. map_of (withdrawals (snd (approve_try env i b s))) i = Some d'"
proof -
  have w: "withdrawals (snd (getAccessToken (ap_token env) s)) = withdrawals s"
    by (rule getAccessToken_withdrawals)
  show ?thesis
  proof (cases "getAccessToken (ap_token env) s")
    case (Pair r s1)
    with w have s1: "map_of (withdrawals s1) i = Some d"
      using assms by simp
    have k: "\<And>token data. \<exists>d'. map_of (withdrawals (snd (approve_record env i b data
              (emit (HttpPost ''/send-money/create'' token (requestData d)) s1)))) i = Some d'"
      by (rule approve_record_keeps) (simp add: emit_def s1)
    show ?thesis
      using assms Pair s1 k
      by (auto simp: approve_try_def doc_get_def emit_def Let_def split: option.splits sum.splits)
  qed
qed

text \<open>
  Approve of an existing pending request whose payout request raises in the HTTP client
  (no response, or a response with an error status). The call answers HTTP 500
  with the original cause as \<^verbatim>\<open>details\<close>. When the write in the \<^verbatim>\<open>catch\<close> block goes
  through, the record has status \<^verbatim>\<open>failed\<close>, \<^verbatim>\<open>processed_at\<close> the server time of that
  write and \<^verbatim>\<open>error_message\<close> the error detail, and every other field as before. When
  that write itself fails, the failure is logged with \<^verbatim>\<open>console.error\<close> and swallowed:
  the answer is the same and the collection is as it was.
\<close>

theorem approve_gateway_failure:
  assumes "ap_get_fault env = None"
    and "map_of (withdrawals s) i = Some d"
    and "field d ''status'' = JStr ''pending''"
    and "getAccessToken (ap_token env) s = (Inr token, s1)"
    and "ap_post env = Inl e"
  shows "fst (withdrawal_approve env i b s) =
           respond 500 (JObj [(''error'', JStr ''Failed to process withdrawal''),
                              (''details'', details e)])
       \<and> (ap_failed_fault env = None \<longrightarrow>
            (\<exists>d'. map_of (withdrawals (snd (withdrawal_approve env i b s))) i = Some d'
               \<and> field d' ''status'' = JStr ''failed''
               \<and> field d' ''processed_at'' = JTimestamp (ap_failed_time env)
               \<and> field d' ''error_message'' = error_message e
               \<and> (\<forall>k. k \<noteq> ''status'' \<and> k \<noteq> ''processed_at'' \<and> k \<noteq> ''error_message''
                      \<longrightarrow> field d' k = field d k)))
       \<and> (\<forall>ue. ap_failed_fault env = Some ue \<longrightarrow>
            withdrawals (snd (withdrawal_approve env i b s)) = withdrawals s
            \<and> last (trace (snd (withdrawal_approve env i b s))) =
                ConsoleError ''Error updating failed status:'' (JStr (message ue)))"
proof -
  have w: "withdrawals s1 = withdrawals s"
    using getAccessToken_withdrawals [of "ap_token env" s] assms(4) by simp
  define s2 where "s2 = emit (ConsoleError ''Error approving withdrawal:'' (details e))
                          (emit (HttpPost ''/send-money/create'' token (requestData d)) s1)"
  have t: "approve_try env i b s =
             (Inl e, emit (HttpPost ''/send-money/create'' token (requestData d)) s1)"
    using assms by (simp add: approve_try_def doc_get_def)
  have r: "withdrawal_approve env i b s =
             (respond 500 (JObj [(''error'', JStr ''Failed to process withdrawal''),
                                 (''details'', details e)]),
              mark_failed env i e s2)"
    by (simp add: withdrawal_approve_def t s2_def)
  have d2: "map_of (withdrawals s2) i = Some d" and w2: "withdrawals s2 = withdrawals s"
    using assms(2) w by (simp_all add: s2_def emit_def)
  have written: "ap_failed_fault env = None \<Longrightarrow>
      map_of (withdrawals (mark_failed env i e s2)) i = Some (spread d (failed_fields env e))"
    by (simp add: mark_failed_written [OF d2] map_of_put)
  have swallowed: "\<And>ue. ap_failed_fault env = Some ue \<Longrightarrow>
      withdrawals (mark_failed env i e s2) = withdrawals s
      \<and> last (trace (mark_failed env i e s2)) =
          ConsoleError ''Error updating failed status:'' (JStr (message ue))"
    by (simp add: mark_failed_swallowed emit_def w2)
  show ?thesis
    using written swallowed by (simp add: r failed_record)
qed

theorem approve_gateway_failure_witness:
  "ap_get_fault approve_payout_fails = None
   \<and> map_of (withdrawals server_pending) ''w1'' = Some pending_doc
   \<and> field pending_doc ''status'' = JStr ''pending''
   \<and> getAccessToken (ap_token approve_payout_fails) server_pending = (Inr (JStr ''tok''), server_pending)
   \<and> ap_post approve_payout_fails = Inl payout_refused
   \<and> fst (withdrawal_approve approve_payout_fails ''w1'' [] server_pending) =
        respond 500 (JObj [(''error'', JStr ''Failed to process withdrawal''),
                           (''details'', JObj [(''status'', JStr ''error''),
                                               (''message'', JStr ''Insufficient balance'')])])
   \<and> withdrawals (snd (withdrawal_approve approve_payout_fails ''w1'' [] server_pending)) =
        [(''w1'', failed_doc)]
   \<and> field failed_doc ''status'' = JStr ''failed''
   \<and> field failed_doc ''processed_at'' = JTimestamp 3000
   \<and> field failed_doc ''error_message'' = JStr ''Insufficient balance''
   \<and> ap_failed_fault approve_store_down = Some store_down
   \<and> withdrawals (snd (withdrawal_approve approve_store_down ''w1'' [] server_pending)) =
        [(''w1'', pending_doc)]
   \<and> fst (withdrawal_approve approve_store_down ''w1'' [] server_pending) =
        fst (withdrawal_approve approve_payout_fails ''w1'' [] server_pending)"
proof -
  have h: "ap_get_fault approve_payout_fails = None"
    "map_of (withdrawals server_pending) ''w1'' = Some pending_doc"
    "field pending_doc ''status'' = JStr ''pending''"
    "getAccessToken (ap_token approve_payout_fails) server_pending = (Inr (JStr ''tok''), server_pending)"
    "ap_post approve_payout_fails = Inl payout_refused"
    by (simp_all add: approve_payout_fails_def model_defs example_defs)
  have h': "ap_get_fault approve_store_down = None"
    "getAccessToken (ap_token approve_store_down) server_pending = (Inr (JStr ''tok''), server_pending)"
    "ap_post approve_store_down = Inl payout_refused"
    "ap_failed_fault approve_store_down = Some store_down"
    by (simp_all add: approve_store_down_def approve_payout_fails_def model_defs example_defs)
  have a: "withdrawals (snd (withdrawal_approve approve_payout_fails ''w1'' [] server_pending)) =
        [(''w1'', failed_doc)]"
    by (simp add: withdrawal_approve_def approve_try_def mark_failed_def failed_fields_def
        requestData_def failed_doc_def approve_payout_fails_def model_defs example_defs)
  show ?thesis
    using approve_gateway_failure [OF h, of "[]"]
      approve_gateway_failure [OF h'(1) h(2) h(3) h'(2) h'(3), of "[]"] h h' a
    by (simp add: details_def js_or_def payout_refused_def failed_doc_def field_def
        server_pending_def server_with_token_def)
qed

text \<open>What the handler does with an exception of the \<^verbatim>\<open>try\<close> block, the document being there.\<close>

lemma approve_thrown:
  assumes "map_of (withdrawals s) i = Some d"
    and "fst (approve_try env i b s) = Inl e"
  shows "fst (withdrawal_approve env i b s) =
           respond 500 (JObj [(''error'', JStr ''Failed to process withdrawal''),
                              (''details'', details e)])
       \<and> (ap_failed_fault env = None \<longrightarrow>
            (\<exists>d'. map_of (withdrawals (snd (withdrawal_approve env i b s))) i = Some d'
               \<and> field d' ''status'' = JStr ''failed''
               \<and> field d' ''error_message'' = error_message e))
       \<and> (\<forall>ue. ap_failed_fault env = Some ue \<longrightarrow>
            last (trace (snd (withdrawal_approve env i b s))) =
              ConsoleError ''Error updating failed status:'' (JStr (message ue)))"
proof -
  obtain s1 where t: "approve_try env i b s = (Inl e, s1)"
    using assms(2) by (cases "approve_try env i b s") simp
  define s2 where "s2 = emit (ConsoleError ''Error approving withdrawal:'' (details e)) s1"
  have r: "withdrawal_approve env i b s =
             (respond 500 (JObj [(''error'', JStr ''Failed to process withdrawal''),
                                 (''details'', details e)]),
              mark_failed env i e s2)"
    by (simp add: withdrawal_approve_def t s2_def)
  obtain d0 where "map_of (withdrawals (snd (approve_try env i b s))) i = Some d0"
    using approve_try_keeps [OF assms(1)] by blast
  then have d0: "map_of (withdrawals s2) i = Some d0"
    by (simp add: t s2_def emit_def)
  have written: "ap_failed_fault env = None \<Longrightarrow>
      map_of (withdrawals (mark_failed env i e s2)) i = Some (spread d0 (failed_fields env e))"
    by (simp add: mark_failed_written [OF d0] map_of_put)
  have swallowed: "\<And>ue. ap_failed_fault env = Some ue \<Longrightarrow>
      last (trace (mark_failed env i e s2)) =
        ConsoleError ''Error updating failed status:'' (JStr (message ue))"
    by (simp add: mark_failed_swallowed emit_def)
  show ?thesis
    using written swallowed by (simp add: r failed_record)
qed

text \<open>
  C9. In Approve the \<^verbatim>\<open>catch\<close> block handles every exception of the \<^verbatim>\<open>try\<close> block. For
  an existing pending request whose first read succeeds, whatever is thrown after the
  pending check (by the token acquisition, the payout request, the update to
  \<^verbatim>\<open>approved\<close>, the second read or the rendering) is answered with HTTP 500, and the
  block writes status \<^verbatim>\<open>failed\<close> with an \<^verbatim>\<open>error_message\<close>: when that write goes through
  the record ends in status \<^verbatim>\<open>failed\<close>, when it fails the failure is logged. In
  particular, when the payout request succeeds and the update to \<^verbatim>\<open>approved\<close> or the
  second read throws, the payout request has been sent and the record still ends in
  status \<^verbatim>\<open>failed\<close> with the store's error as \<^verbatim>\<open>error_message\<close>.
\<close>

theorem approve_catch_marks_failed:
  assumes "ap_get_fault env = None"
    and "map_of (withdrawals s) i = Some d"
    and "field d ''status'' = JStr ''pending''"
  shows "(\<forall>e. fst (approve_try env i b s) = Inl e \<longrightarrow>
            fst (withdrawal_approve env i b s) =
              respond 500 (JObj [(''error'', JStr ''Failed to process withdrawal''),
                                 (''details'', details e)])
            \<and> (ap_failed_fault env = None \<longrightarrow>
                 (\<exists>d'. map_of (withdrawals (snd (withdrawal_approve env i b s))) i = Some d'
                    \<and> field d' ''status'' = JStr ''failed''
                    \<and> field d' ''error_message'' = error_message e))
            \<and> (\<forall>ue. ap_failed_fault env = Some ue \<longrightarrow>
                 last (trace (snd (withdrawal_approve env i b s))) =
                   ConsoleError ''Error updating failed status:'' (JStr (message ue))))
       \<and> (\<forall>token s1 data e.
            getAccessToken (ap_token env) s = (Inr token, s1) \<and> ap_post env = Inr data
            \<and> (ap_update_fault env = Some e
                \<or> ap_update_fault env = None \<and> ap_reget_fault env = Some e) \<longrightarrow>
            HttpPost ''/send-money/create'' token (requestData d)
                \<in> set (trace (snd (withdrawal_approve env i b s)))
            \<and> fst (withdrawal_approve env i b s) =
                respond 500 (JObj [(''error'', JStr ''Failed to process withdrawal''),
                                   (''details'', details e)])
            \<and> (ap_failed_fault env = None \<longrightarrow>
                 (\<exists>d'. map_of (withdrawals (snd (withdrawal_approve env i b s))) i = Some d'
                    \<and> field d' ''status'' = JStr ''failed''
                    \<and> field d' ''error_message'' = error_message e)))"
proof (intro conjI allI impI)
  fix e
  assume thrown: "fst (approve_try env i b s) = Inl e"
  note c = approve_thrown [OF assms(2) thrown]
  show "fst (withdrawal_approve env i b s) =
          respond 500 (JObj [(''error'', JStr ''Failed to process withdrawal''),
                             (''details'', details e)])"
    using c by blast
  show "ap_failed_fault env = None \<Longrightarrow>
      \<exists>d'. map_of (withdrawals (snd (withdrawal_approve env i b s))) i = Some d'
        \<and> field d' ''status'' = JStr ''failed''
        \<and> field d' ''error_message'' = error_message e"
    using c by blast
  show "\<And>ue. ap_failed_fault env = Some ue \<Longrightarrow>
      last (trace (snd (withdrawal_approve env i b s))) =
        ConsoleError ''Error updating failed status:'' (JStr (message ue))"
    using c by blast
next
  fix token s1 data e
  assume a: "getAccessToken (ap_token env) s = (Inr token, s1) \<and> ap_post env = Inr data
      \<and> (ap_update_fault env = Some e \<or> ap_update_fault env = None \<and> ap_reget_fault env = Some e)"
  have w: "withdrawals s1 = withdrawals s"
    using getAccessToken_withdrawals [of "ap_token env" s] a by simp
  define s2 where "s2 = emit (HttpPost ''/send-money/create'' token (requestData d)) s1"
  have t: "approve_try env i b s = approve_record env i b data s2"
    using assms a by (simp add: approve_try_def doc_get_def s2_def)
  have d2: "map_of (withdrawals s2) i = Some d"
    using assms(2) w by (simp add: s2_def emit_def)
  have thrown': "fst (approve_record env i b data s2) = Inl e"
    and sent: "trace (snd (approve_record env i b data s2)) = trace s2"
    using a d2
    by (auto simp: approve_record_def doc_update_def doc_get_def and_then_def)
  have thrown: "fst (approve_try env i b s) = Inl e"
    by (simp add: t thrown')
  note c = approve_thrown [OF assms(2) thrown]
  obtain s3 where s3: "approve_record env i b data s2 = (Inl e, s3)"
    using thrown' by (cases "approve_record env i b data s2") simp
  have "trace s3 = trace s2"
    using sent by (simp add: s3)
  then have "trace s3 = trace s1 @ [HttpPost ''/send-money/create'' token (requestData d)]"
    by (simp add: s2_def emit_def)
  then show "HttpPost ''/send-money/create'' token (requestData d)
      \<in> set (trace (snd (withdrawal_approve env i b s)))"
    by (simp add: withdrawal_approve_def t s3 mark_failed_def emit_def
        split: sum.splits)
  show "fst (withdrawal_approve env i b s) =
          respond 500 (JObj [(''error'', JStr ''Failed to process withdrawal''),
                             (''details'', details e)])"
    using c by blast
  show "ap_failed_fault env = None \<Longrightarrow>
      \<exists>d'. map_of (withdrawals (snd (withdrawal_approve env i b s))) i = Some d'
        \<and> field d' ''status'' = JStr ''failed''
        \<and> field d' ''error_message'' = error_message e"
    using c by blast
qed

theorem approve_catch_marks_failed_witness:
  "ap_get_fault approve_update_fails = None
   \<and> map_of (withdrawals server_pending) ''w1'' = Some pending_doc
   \<and> field pending_doc ''status'' = JStr ''pending''
   \<and> getAccessToken (ap_token approve_update_fails) server_pending =
        (Inr (JStr ''tok''), server_pending)
   \<and> ap_post approve_update_fails = Inr payout_ok
   \<and> ap_update_fault approve_update_fails = Some store_down
   \<and> ap_failed_fault approve_update_fails = None
   \<and> fst (approve_try approve_update_fails ''w1'' [] server_pending) = Inl store_down
   \<and> fst (withdrawal_approve approve_update_fails ''w1'' [] server_pending) =
        respond 500 (JObj [(''error'', JStr ''Failed to process withdrawal''),
                           (''details'', JStr (message store_down))])
   \<and> withdrawals (snd (withdrawal_approve approve_update_fails ''w1'' [] server_pending)) =
        [(''w1'', spread pending_doc
                    [(''status'', JStr ''failed''), (''processed_at'', JTimestamp 3500),
                     (''error_message'', JStr (message store_down))])]
   \<and> HttpPost ''/send-money/create'' (JStr ''tok'') (requestData pending_doc)
        \<in> set (trace (snd (withdrawal_approve approve_update_fails ''w1'' [] server_pending)))
   \<and> ap_update_fault approve_reread_fails = None
   \<and> ap_reget_fault approve_reread_fails = Some store_down
   \<and> withdrawals (snd (withdrawal_approve approve_reread_fails ''w1'' [] server_pending)) =
        [(''w1'', spread approved_doc
                    [(''status'', JStr ''failed''), (''processed_at'', JTimestamp 3500),
                     (''error_message'', JStr (message store_down))])]
   \<and> ap_failed_fault approve_all_down = Some store_down
   \<and> fst (approve_try approve_all_down ''w1'' [] server_pending) = Inl store_down
   \<and> last (trace (snd (withdrawal_approve approve_all_down ''w1'' [] server_pending))) =
        ConsoleError ''Error updating failed status:'' (JStr (message store_down))
   \<and> withdrawals (snd (withdrawal_approve approve_all_down ''w1'' [] server_pending)) =
        [(''w1'', pending_doc)]"
proof -
  have h: "ap_get_fault approve_update_fails = None"
    "map_of (withdrawals server_pending) ''w1'' = Some pending_doc"
    "field pending_doc ''status'' = JStr ''pending''"
    by (simp_all add: model_defs example_defs)
  have h': "ap_get_fault approve_all_down = None"
    by (simp add: example_defs)
  have g: "getAccessToken (ap_token approve_update_fails) server_pending =
             (Inr (JStr ''tok''), server_pending)"
    "ap_post approve_update_fails = Inr payout_ok"
    "ap_update_fault approve_update_fails = Some store_down"
    "ap_failed_fault approve_update_fails = None"
    "ap_update_fault approve_reread_fails = None"
    "ap_reget_fault approve_reread_fails = Some store_down"
    "ap_failed_fault approve_all_down = Some store_down"
    by (simp_all add: model_defs example_defs)
  have a: "withdrawals (snd (withdrawal_approve approve_update_fails ''w1'' [] server_pending)) =
        [(''w1'', spread pending_doc
                    [(''status'', JStr ''failed''), (''processed_at'', JTimestamp 3500),
                     (''error_message'', JStr (message store_down))])]"
    by (simp add: withdrawal_approve_def approve_try_def approve_record_def mark_failed_def
        failed_fields_def approved_fields_def requestData_def model_defs example_defs)
  have b: "withdrawals (snd (withdrawal_approve approve_reread_fails ''w1'' [] server_pending)) =
        [(''w1'', spread approved_doc
                    [(''status'', JStr ''failed''), (''processed_at'', JTimestamp 3500),
                     (''error_message'', JStr (message store_down))])]"
    by (simp add: withdrawal_approve_def approve_try_def approve_record_def mark_failed_def
        failed_fields_def approved_fields_def requestData_def model_defs example_defs)
  have c: "withdrawals (snd (withdrawal_approve approve_all_down ''w1'' [] server_pending)) =
        [(''w1'', pending_doc)]"
    by (simp add: withdrawal_approve_def approve_try_def approve_record_def mark_failed_def
        failed_fields_def approved_fields_def requestData_def model_defs example_defs)
  have thrown: "fst (approve_try approve_update_fails ''w1'' [] server_pending) = Inl store_down"
    "fst (approve_try approve_all_down ''w1'' [] server_pending) = Inl store_down"
    by (simp_all add: approve_try_def approve_record_def requestData_def approved_fields_def
        model_defs example_defs)
  note t = approve_catch_marks_failed [OF h, of "[]"]
  note t' = approve_catch_marks_failed [OF h' h(2) h(3), of "[]"]
  have sent: "HttpPost ''/send-money/create'' (JStr ''tok'') (requestData pending_doc)
        \<in> set (trace (snd (withdrawal_approve approve_update_fails ''w1'' [] server_pending)))"
    and "fst (withdrawal_approve approve_update_fails ''w1'' [] server_pending) =
        respond 500 (JObj [(''error'', JStr ''Failed to process withdrawal''),
                           (''details'', details store_down)])"
    using t g by blast+
  moreover have "last (trace (snd (withdrawal_approve approve_all_down ''w1'' [] server_pending))) =
        ConsoleError ''Error updating failed status:'' (JStr (message store_down))"
    using t' thrown(2) g(7) by blast
  ultimately show ?thesis
    using h g a b c thrown by (simp add: details_def js_or_def store_down_def)
qed

section \<open>Approve: defects of the handler\<close>

lemma approved_reachable:
  "withdrawals (run server0 [WithdrawalRequest request_ok request_body,
                             WithdrawalApprove approve_ok ''w1'' []]) =
   withdrawals server_approved"
  by (simp add: run_def withdrawal_request_def withdrawal_request_try_def withdrawal_record_def
      submitted_def withdrawal_approve_def approve_try_def approve_record_def approved_def
      approved_fields_def requestData_def approved_doc_def model_defs example_defs)

lemma pending_reachable:
  "withdrawals (run server0 [WithdrawalRequest request_ok request_body]) =
   withdrawals server_pending"
  by (simp add: run_def withdrawal_request_def withdrawal_request_try_def withdrawal_record_def
      submitted_def model_defs example_defs)

text \<open>
  C1. The claim fails in Approve. The first read of the record stands inside the \<^verbatim>\<open>try\<close>
  block, so when it throws, the \<^verbatim>\<open>catch\<close> block writes status \<^verbatim>\<open>failed\<close> without the
  status ever having been looked at. Here the withdrawal \<open>w1\<close> has been approved and paid
  out; an Approve call whose read fails answers HTTP 500 and overwrites the record:
  its status becomes \<^verbatim>\<open>failed\<close>, its \<^verbatim>\<open>processed_at\<close> moves from 3000 to 4000 and an
  \<^verbatim>\<open>error_message\<close> is added.
\<close>

theorem approve_read_fault_overwrites:
  "map_of (withdrawals server_approved) ''w1'' = Some approved_doc
   \<and> field approved_doc ''status'' = JStr ''approved''
   \<and> fst (withdrawal_approve approve_read_fails ''w1'' [] server_approved) =
        respond 500 (JObj [(''error'', JStr ''Failed to process withdrawal''),
                           (''details'', JStr (message store_down))])
   \<and> withdrawals (snd (withdrawal_approve approve_read_fails ''w1'' [] server_approved)) =
        [(''w1'', overwritten_doc)]
   \<and> field overwritten_doc ''status'' = JStr ''failed''
   \<and> field overwritten_doc ''processed_at'' = JTimestamp 4000
   \<and> field approved_doc ''processed_at'' = JTimestamp 3000"
  by (simp add: withdrawal_approve_def approve_try_def mark_failed_def failed_fields_def
      approve_read_fails_def server_approved_def approved_doc_def overwritten_doc_def
      model_defs example_defs)

text \<open>
  C3. The claim fails for status \<^verbatim>\<open>failed\<close>. The update in the \<^verbatim>\<open>catch\<close> block of Approve
  writes \<^verbatim>\<open>status\<close>, \<^verbatim>\<open>processed_at\<close> and \<^verbatim>\<open>error_message\<close> only. Here the operator
  \<open>op7\<close> approves the pending withdrawal \<open>w1\<close> and the payout request is refused: the
  record ends in status \<^verbatim>\<open>failed\<close> with \<^verbatim>\<open>processed_by\<close> still \<^verbatim>\<open>null\<close>.
\<close>

theorem failed_record_keeps_processed_by_null:
  "withdrawals (snd (withdrawal_approve approve_payout_fails ''w1'' [(''adminId'', JStr ''op7'')]
                       server_pending)) = [(''w1'', failed_doc)]
   \<and> field failed_doc ''status'' = JStr ''failed''
   \<and> field failed_doc ''processed_by'' = JNull"
  by (simp add: withdrawal_approve_def approve_try_def mark_failed_def failed_fields_def
      requestData_def approve_payout_fails_def failed_doc_def model_defs example_defs)

text \<open>
  C2. The claim fails for a payout that the gateway refuses in the body of a 2xx
  response. The handler never reads \<^verbatim>\<open>response.data.status\<close> of the payout request (the
  token, payment and verification requests all test it against \<^verbatim>\<open>success\<close>), so
  only a raise of the HTTP client counts as failure. Here the gateway answers the payout
  of the pending withdrawal \<open>w1\<close> with status \<^verbatim>\<open>error\<close>: the record becomes
  \<^verbatim>\<open>approved\<close> with that body as \<^verbatim>\<open>ezipay_response\<close>, no \<^verbatim>\<open>error_message\<close> is
  recorded and the call answers HTTP 200.
\<close>

theorem approve_payout_refused_in_body:
  "ap_post approve_refused_in_body = Inr payout_refused_body
   \<and> read_prop payout_refused_body ''status'' = Inr (JStr ''error'')
   \<and> map_of (withdrawals server_pending) ''w1'' = Some pending_doc
   \<and> field pending_doc ''status'' = JStr ''pending''
   \<and> code (fst (withdrawal_approve approve_refused_in_body ''w1'' [] server_pending)) = 200
   \<and> opt_prop (json (fst (withdrawal_approve approve_refused_in_body ''w1'' [] server_pending)))
        ''message'' = JStr ''Withdrawal approved and processed''
   \<and> withdrawals (snd (withdrawal_approve approve_refused_in_body ''w1'' [] server_pending)) =
        [(''w1'', wrongly_approved_doc)]
   \<and> field wrongly_approved_doc ''status'' = JStr ''approved''
   \<and> field wrongly_approved_doc ''ezipay_response'' = payout_refused_body
   \<and> field wrongly_approved_doc ''error_message'' = JUndefined"
  by (simp add: withdrawal_approve_def approve_try_def approve_record_def approved_def
      approved_fields_def requestData_def model_defs example_defs)

section \<open>Reject\<close>

lemma reject_guard:
  assumes "rj_get_fault env = None" and "map_of (withdrawals s) i = Some d"
    and "field d ''status'' \<noteq> JStr ''pending''"
  shows "withdrawal_reject env i b s =
           (respond 400 (JObj [(''error'', JStr ''Withdrawal already processed'')]), s)"
  using assms by (simp add: withdrawal_reject_def reject_try_def doc_get_def)

lemma reject_read_fault:
  assumes "rj_get_fault env = Some e"
  shows "withdrawal_reject env i b s =
           (respond 500 (JObj [(''error'', JStr ''Failed to reject withdrawal'')]),
            emit (ConsoleError ''Error rejecting withdrawal:'' (JStr (message e))) s)"
  using assms by (simp add: withdrawal_reject_def reject_try_def doc_get_def)

lemma rejected_record:
  "field (spread d (rejected_fields env b)) k =
     (if k = ''status'' then JStr ''rejected''
      else if k = ''processed_at'' then JTimestamp (rj_update_time env)
      else if k = ''processed_by'' then js_or (field b ''adminId'') (JStr ''admin'')
      else if k = ''rejection_reason'' then js_or (field b ''reason'') (JStr ''No reason provided'')
      else field d k)"
  by (simp add: spread_def rejected_fields_def field_put)

lemma rejected_keys:
  assumes "k \<noteq> ''status''" and "k \<noteq> ''processed_at''" and "k \<noteq> ''processed_by''"
    and "k \<noteq> ''rejection_reason''"
  shows "map_of (spread d (rejected_fields env b)) k = map_of d k"
  using assms by (simp add: spread_def rejected_fields_def map_of_put)

text \<open>
  C8. Reject of an existing pending request, the store calls going through. Nothing is
  added to the trace: no request is sent to the gateway; of the server state only this
  record changes. The record gets status
  \<^verbatim>\<open>rejected\<close>, \<^verbatim>\<open>processed_at\<close> the server time of the update, \<^verbatim>\<open>processed_by\<close> the given
  admin id or \<open>admin\<close>, and \<^verbatim>\<open>rejection_reason\<close> the given reason or
  \<open>No reason provided\<close>; every other key is as before, so \<^verbatim>\<open>ezipay_response\<close> and
  \<^verbatim>\<open>error_message\<close> stay absent. The answer is HTTP 200 with the updated record, its id in
  front and its two timestamps rendered as ISO strings.
\<close>

theorem reject_pending:
  assumes "rj_get_fault env = None"
    and "map_of (withdrawals s) i = Some d"
    and "field d ''status'' = JStr ''pending''"
    and "rj_update_fault env = None"
    and "rj_reget_fault env = None"
    and "to_iso (field d ''created_at'') = Inr c"
  shows "\<exists>d'. trace (snd (withdrawal_reject env i b s)) = trace s
       \<and> snd (withdrawal_reject env i b s) = s\<lparr>withdrawals := put i d' (withdrawals s)\<rparr>
       \<and> map_of (withdrawals (snd (withdrawal_reject env i b s))) i = Some d'
       \<and> field d' ''status'' = JStr ''rejected''
       \<and> field d' ''processed_at'' = JTimestamp (rj_update_time env)
       \<and> field d' ''processed_by'' = js_or (field b ''adminId'') (JStr ''admin'')
       \<and> field d' ''rejection_reason'' = js_or (field b ''reason'') (JStr ''No reason provided'')
       \<and> (\<forall>k. k \<noteq> ''status'' \<and> k \<noteq> ''processed_at'' \<and> k \<noteq> ''processed_by''
               \<and> k \<noteq> ''rejection_reason'' \<longrightarrow> map_of d' k = map_of d k)
       \<and> (map_of d ''ezipay_response'' = None \<and> map_of d ''error_message'' = None \<longrightarrow>
            map_of d' ''ezipay_response'' = None \<and> map_of d' ''error_message'' = None)
       \<and> fst (withdrawal_reject env i b s) =
            respond 200
              (JObj [(''status'', JStr ''success''),
                     (''message'', JStr ''Withdrawal rejected''),
                     (''data'', JObj (put ''processed_at'' (JIso (rj_update_time env))
                                       (put ''created_at'' c (spread [(''id'', JStr i)] d'))))])"
proof -
  define d' where "d' = spread d (rejected_fields env b)"
  define ws where "ws = put i d' (withdrawals s)"
  have get1: "doc_get (rj_get_fault env) (withdrawals s) i = Inr (Some d)"
    using assms(1,2) by (simp add: doc_get_def)
  have upd: "doc_update (rj_update_fault env) (withdrawals s) i (rejected_fields env b) = Inr ws"
    using assms by (simp add: doc_update_def ws_def d'_def)
  have stored: "map_of ws i = Some d'"
    by (simp add: ws_def map_of_put)
  have created: "field d' ''created_at'' = field d ''created_at''"
    and processed: "field d' ''processed_at'' = JTimestamp (rj_update_time env)"
    by (simp_all add: d'_def rejected_record)
  have rendered: "and_then (doc_get (rj_reget_fault env) ws i) (render i) =
      Inr (JObj (put ''processed_at'' (JIso (rj_update_time env))
                  (put ''created_at'' c (spread [(''id'', JStr i)] d'))))"
    using assms(5,6) by (simp add: doc_get_def and_then_def render_def stored created processed)
  have r: "withdrawal_reject env i b s =
      (rejected (JObj (put ''processed_at'' (JIso (rj_update_time env))
                        (put ''created_at'' c (spread [(''id'', JStr i)] d')))),
       s\<lparr>withdrawals := ws\<rparr>)"
    using assms(3) by (simp add: withdrawal_reject_def reject_try_def get1 upd rendered)
  have keys: "\<forall>k. k \<noteq> ''status'' \<and> k \<noteq> ''processed_at'' \<and> k \<noteq> ''processed_by''
               \<and> k \<noteq> ''rejection_reason'' \<longrightarrow> map_of d' k = map_of d k"
    by (simp add: d'_def rejected_keys)
  have absent: "map_of d ''ezipay_response'' = None \<and> map_of d ''error_message'' = None \<longrightarrow>
      map_of d' ''ezipay_response'' = None \<and> map_of d' ''error_message'' = None"
    by (simp add: d'_def rejected_keys)
  have fields: "field d' ''status'' = JStr ''rejected''"
    "field d' ''processed_by'' = js_or (field b ''adminId'') (JStr ''admin'')"
    "field d' ''rejection_reason'' = js_or (field b ''reason'') (JStr ''No reason provided'')"
    by (simp_all add: d'_def rejected_record)
  show ?thesis
    apply (rule exI [of _ d'])
    using stored processed fields keys absent
    by (simp add: r rejected_def) (simp add: ws_def)
qed

theorem reject_pending_witness:
  "rj_get_fault reject_ok = None
   \<and> map_of (withdrawals server_pending) ''w1'' = Some pending_doc
   \<and> field pending_doc ''status'' = JStr ''pending''
   \<and> rj_update_fault reject_ok = None
   \<and> rj_reget_fault reject_ok = None
   \<and> to_iso (field pending_doc ''created_at'') = Inr (JIso 2000)
   \<and> map_of pending_doc ''ezipay_response'' = None
   \<and> map_of pending_doc ''error_message'' = None
   \<and> withdrawal_reject reject_ok ''w1'' reject_body server_pending =
        (respond 200 (JObj [(''status'', JStr ''success''),
                            (''message'', JStr ''Withdrawal rejected''),
                            (''data'', rejected_data)]),
         server_pending\<lparr>withdrawals := [(''w1'', rejected_doc)]\<rparr>)
   \<and> map_of rejected_doc ''ezipay_response'' = None
   \<and> map_of rejected_doc ''error_message'' = None
   \<and> field rejected_doc ''rejection_reason'' = JStr ''duplicate request''"
proof -
  have h: "rj_get_fault reject_ok = None"
    "map_of (withdrawals server_pending) ''w1'' = Some pending_doc"
    "field pending_doc ''status'' = JStr ''pending''"
    "rj_update_fault reject_ok = None"
    "rj_reget_fault reject_ok = None"
    "to_iso (field pending_doc ''created_at'') = Inr (JIso 2000)"
    by (simp_all add: reject_ok_def model_defs example_defs)
  have a: "withdrawal_reject reject_ok ''w1'' reject_body server_pending =
        (respond 200 (JObj [(''status'', JStr ''success''),
                            (''message'', JStr ''Withdrawal rejected''),
                            (''data'', rejected_data)]),
         server_pending\<lparr>withdrawals := [(''w1'', rejected_doc)]\<rparr>)"
    by (simp add: withdrawal_reject_def reject_try_def rejected_fields_def rejected_def
        reject_ok_def reject_body_def rejected_doc_def rejected_data_def model_defs example_defs)
  show ?thesis
    using reject_pending [OF h, of reject_body] h a
    by (simp add: rejected_doc_def pending_doc_def field_def)
qed

section \<open>Creating a withdrawal request\<close>

lemma falsy_values:
  "\<not> truthy v \<longleftrightarrow>
     v = JUndefined \<or> v = JNull \<or> v = JBool False \<or> v = JNum 0 \<or> v = JNaN \<or> v = JStr []"
  by (cases v) auto

lemma success_is_object:
  assumes "read_prop data ''status'' = Inr (JStr ''success'')"
  shows "\<exists>fs. data = JObj fs"
  using assms by (cases data) (simp_all add: TypeError_def)

text \<open>
  C4, as the code has it. The check is \<^verbatim>\<open>!x\<close> on each of the four fields: a call in which
  one of them is absent or falsy (\<^verbatim>\<open>undefined\<close>, \<^verbatim>\<open>null\<close>, \<^verbatim>\<open>false\<close>, the number 0,
  \<^verbatim>\<open>NaN\<close> or the empty string) is answered with HTTP 400 and leaves the whole server
  state as it is: no record is written and no request is sent.
\<close>

theorem withdrawal_request_validation:
  assumes "\<not> truthy (field b ''email_or_phone'') \<or> \<not> truthy (field b ''currency'')
           \<or> \<not> truthy (field b ''amount'') \<or> \<not> truthy (field b ''payment_method_id'')"
  shows "withdrawal_request env b s =
           (respond 400 (JObj [(''error'', JStr ''Missing required fields'')]), s)"
  using assms by (auto simp: withdrawal_request_def withdrawal_request_try_def Let_def)

theorem withdrawal_request_validation_witness:
  "\<not> truthy (field zero_body ''amount'')
   \<and> field zero_body ''amount'' = JNum 0
   \<and> withdrawal_request request_ok zero_body server0 =
        (respond 400 (JObj [(''error'', JStr ''Missing required fields'')]), server0)"
proof -
  have h: "\<not> truthy (field zero_body ''amount'')"
    by (simp add: zero_body_def field_def)
  then have "\<not> truthy (field zero_body ''email_or_phone'') \<or> \<not> truthy (field zero_body ''currency'')
      \<or> \<not> truthy (field zero_body ''amount'') \<or> \<not> truthy (field zero_body ''payment_method_id'')"
    by simp
  from withdrawal_request_validation [OF this, of request_ok server0] h
  show ?thesis
    by (simp add: zero_body_def field_def)
qed

text \<open>
  The claim C4 as stated fails on a negative amount: \<^verbatim>\<open>!(-5)\<close> is false, so the request
  passes the check, and with a verified receiver the record is stored with amount \<open>-5\<close>.
\<close>

theorem withdrawal_request_negative_amount:
  "field negative_body ''amount'' = JNum (- 5)
   \<and> fst (withdrawal_request request_ok negative_body server0) =
        respond 200
          (JObj [(''status'', JStr ''success''),
                 (''message'', JStr ''Withdrawal request submitted. Waiting for admin approval.''),
                 (''data'', JObj [(''withdrawal_id'', JStr ''w1''), (''status'', JStr ''pending'')])])
   \<and> withdrawals (snd (withdrawal_request request_ok negative_body server0)) =
        [(''w1'', spread pending_doc [(''amount'', JNum (- 5))])]"
  by (simp add: withdrawal_request_def withdrawal_request_try_def withdrawal_record_def
      submitted_def negative_body_def model_defs example_defs)

text \<open>
  C5. A withdrawal Create call whose four fields pass the check, the token acquired and
  the verification request answered with a body whose \<^verbatim>\<open>status\<close> can be read. When the
  status is not \<^verbatim>\<open>success\<close>, the answer is HTTP 400 \<open>Invalid receiver\<close> and both
  collections are as before. When it is \<^verbatim>\<open>success\<close> and the store takes the new
  document, the collection grows by exactly that document, which has status
  \<^verbatim>\<open>pending\<close> and the \<^verbatim>\<open>data\<close> of the verification response as \<^verbatim>\<open>receiver_info\<close>, and
  the answer is HTTP 200 with the new id and status \<^verbatim>\<open>pending\<close>.
\<close>

theorem withdrawal_request_receiver:
  assumes "truthy (field b ''email_or_phone'')" and "truthy (field b ''currency'')"
    and "truthy (field b ''amount'')" and "truthy (field b ''payment_method_id'')"
    and "getAccessToken (req_token env) s = (Inr token, s1)"
    and "req_verify env = Inr data"
    and "read_prop data ''status'' = Inr st"
  shows "(st \<noteq> JStr ''success'' \<longrightarrow>
            fst (withdrawal_request env b s) = respond 400 (JObj [(''error'', JStr ''Invalid receiver'')])
            \<and> withdrawals (snd (withdrawal_request env b s)) = withdrawals s
            \<and> payments (snd (withdrawal_request env b s)) = payments s)
       \<and> (st = JStr ''success'' \<and> req_add_fault env = None
            \<and> map_of (withdrawals s) (req_new_id env) = None \<longrightarrow>
            fst (withdrawal_request env b s) =
              respond 200
                (JObj [(''status'', JStr ''success''),
                       (''message'', JStr ''Withdrawal request submitted. Waiting for admin approval.''),
                       (''data'', JObj [(''withdrawal_id'', JStr (req_new_id env)),
                                        (''status'', JStr ''pending'')])])
            \<and> withdrawals (snd (withdrawal_request env b s)) =
                withdrawals s @ [(req_new_id env, withdrawal_record env b (opt_prop data ''data''))]
            \<and> field (withdrawal_record env b (opt_prop data ''data'')) ''status'' = JStr ''pending''
            \<and> field (withdrawal_record env b (opt_prop data ''data'')) ''receiver_info'' =
                opt_prop data ''data'')"
proof (intro conjI impI)
  have w: "withdrawals s1 = withdrawals s" and p: "payments s1 = payments s"
    using getAccessToken_withdrawals [of "req_token env" s]
      getAccessToken_payments [of "req_token env" s] assms(5) by simp_all
  {
    assume "st \<noteq> JStr ''success''"
    then have "withdrawal_request env b s =
        (respond 400 (JObj [(''error'', JStr ''Invalid receiver'')]),
         emit (HttpPost ''/send-money/verify-receiver'' token
                 (JObj [(''email_or_phone'', field b ''email_or_phone'')])) s1)"
      using assms by (simp add: withdrawal_request_def withdrawal_request_try_def Let_def)
    then show "fst (withdrawal_request env b s) =
        respond 400 (JObj [(''error'', JStr ''Invalid receiver'')])"
      and "withdrawals (snd (withdrawal_request env b s)) = withdrawals s"
      and "payments (snd (withdrawal_request env b s)) = payments s"
      using w p by (simp_all add: emit_def)
  }
  {
    assume a: "st = JStr ''success'' \<and> req_add_fault env = None
        \<and> map_of (withdrawals s) (req_new_id env) = None"
    obtain fs where fs: "data = JObj fs"
      using success_is_object assms(7) a by blast
    have "withdrawal_request env b s =
        (submitted (req_new_id env),
         (emit (HttpPost ''/send-money/verify-receiver'' token
                  (JObj [(''email_or_phone'', field b ''email_or_phone'')])) s1)
           \<lparr>withdrawals := withdrawals s @
               [(req_new_id env, withdrawal_record env b (opt_prop data ''data''))]\<rparr>)"
      using assms a w
      by (simp add: withdrawal_request_def withdrawal_request_try_def Let_def fs and_then_def
          coll_add_def emit_def)
    then show "fst (withdrawal_request env b s) =
        respond 200
          (JObj [(''status'', JStr ''success''),
                 (''message'', JStr ''Withdrawal request submitted. Waiting for admin approval.''),
                 (''data'', JObj [(''withdrawal_id'', JStr (req_new_id env)),
                                  (''status'', JStr ''pending'')])])"
      and "withdrawals (snd (withdrawal_request env b s)) =
        withdrawals s @ [(req_new_id env, withdrawal_record env b (opt_prop data ''data''))]"
      by (simp_all add: submitted_def)
  }
  show "field (withdrawal_record env b (opt_prop data ''data'')) ''status'' = JStr ''pending''"
    and "field (withdrawal_record env b (opt_prop data ''data'')) ''receiver_info'' =
      opt_prop data ''data''"
    by (simp_all add: withdrawal_record_def field_def)
qed

theorem withdrawal_request_receiver_witness:
  "truthy (field request_body ''email_or_phone'') \<and> truthy (field request_body ''currency'')
   \<and> truthy (field request_body ''amount'') \<and> truthy (field request_body ''payment_method_id'')
   \<and> getAccessToken (req_token request_unknown) server0 =
        (Inr (JStr ''tok''), snd (getAccessToken token_ok server0))
   \<and> req_verify request_unknown = Inr receiver_unknown
   \<and> read_prop receiver_unknown ''status'' = Inr (JStr ''error'')
   \<and> fst (withdrawal_request request_unknown request_body server0) =
        respond 400 (JObj [(''error'', JStr ''Invalid receiver'')])
   \<and> withdrawals (snd (withdrawal_request request_unknown request_body server0)) = []
   \<and> req_verify request_ok = Inr receiver_ok
   \<and> read_prop receiver_ok ''status'' = Inr (JStr ''success'')
   \<and> req_add_fault request_ok = None
   \<and> map_of (withdrawals server0) (req_new_id request_ok) = None
   \<and> fst (withdrawal_request request_ok request_body server0) =
        respond 200
          (JObj [(''status'', JStr ''success''),
                 (''message'', JStr ''Withdrawal request submitted. Waiting for admin approval.''),
                 (''data'', JObj [(''withdrawal_id'', JStr ''w1''), (''status'', JStr ''pending'')])])
   \<and> withdrawals (snd (withdrawal_request request_ok request_body server0)) = [(''w1'', pending_doc)]"
proof -
  have v: "truthy (field request_body ''email_or_phone'')" "truthy (field request_body ''currency'')"
    "truthy (field request_body ''amount'')" "truthy (field request_body ''payment_method_id'')"
    by (simp_all add: request_body_def field_def)
  have g: "getAccessToken (req_token request_unknown) server0 =
        (Inr (JStr ''tok''), snd (getAccessToken token_ok server0))"
    "getAccessToken (req_token request_ok) server0 =
        (Inr (JStr ''tok''), snd (getAccessToken token_ok server0))"
    by (simp_all add: request_unknown_def model_defs example_defs)
  have e: "req_verify request_unknown = Inr receiver_unknown"
    "read_prop receiver_unknown ''status'' = Inr (JStr ''error'')"
    "req_verify request_ok = Inr receiver_ok"
    "read_prop receiver_ok ''status'' = Inr (JStr ''success'')"
    "req_add_fault request_ok = None"
    "map_of (withdrawals server0) (req_new_id request_ok) = None"
    by (simp_all add: request_unknown_def receiver_unknown_def model_defs example_defs)
  have n: "req_new_id request_ok = ''w1''" "withdrawals server0 = []"
    by (simp_all add: request_ok_def server0_def)
  have rec: "withdrawal_record request_ok request_body (opt_prop receiver_ok ''data'') = pending_doc"
    by (simp add: withdrawal_record_def model_defs example_defs)
  show ?thesis
    using withdrawal_request_receiver [OF v g(1) e(1) e(2)]
      withdrawal_request_receiver [OF v g(2) e(3) e(4)] v g e
    by (simp add: rec n)
qed

section \<open>Creating a payment\<close>




section \<open>The status invariant and the statistics\<close>

lemma statuses_ok_put:
  assumes "statuses_ok c" and "known_status (field d ''status'')"
  shows "statuses_ok (put i d c)"
  using assms by (induction c) (auto simp: statuses_ok_def)

lemma statuses_ok_append:
  assumes "statuses_ok c" and "known_status (field d ''status'')"
  shows "statuses_ok (c @ [(i, d)])"
  using assms by (simp add: statuses_ok_def)

lemma payment_create_withdrawals:
  "withdrawals (snd (payment_create env b s)) = withdrawals s"
proof (cases "getAccessToken (pay_token env) s")
  case (Pair r s1)
  then have "withdrawals s1 = withdrawals s"
    using getAccessToken_withdrawals [of "pay_token env" s] by simp
  then show ?thesis
    using Pair
    by (simp add: payment_create_def payment_create_try_def Let_def emit_def
        split: sum.splits prod.splits)
qed

lemma request_statuses:
  assumes "statuses_ok (withdrawals s)"
  shows "statuses_ok (withdrawals (snd (withdrawal_request env b s)))"
proof (cases "getAccessToken (req_token env) s")
  case (Pair r s1)
  then have w: "withdrawals s1 = withdrawals s"
    using getAccessToken_withdrawals [of "req_token env" s] by simp
  have new: "\<And>info. known_status (field (withdrawal_record env b info) ''status'')"
    by (simp add: withdrawal_record_def field_def known_status_def)
  show ?thesis
    using Pair w assms new
    by (auto simp: withdrawal_request_def withdrawal_request_try_def Let_def emit_def
        and_then_def coll_add_def statuses_ok_append
        split: sum.splits option.splits if_splits)
qed

lemma approve_record_statuses:
  assumes "statuses_ok (withdrawals s)"
  shows "statuses_ok (withdrawals (snd (approve_record env i b data s)))"
proof -
  have "\<And>d. known_status (field (spread d (approved_fields env b data)) ''status'')"
    by (simp add: approved_record known_status_def)
  then show ?thesis
    using assms
    by (auto simp: approve_record_def doc_update_def statuses_ok_put
        split: sum.splits option.splits)
qed

lemma approve_try_statuses:
  assumes "statuses_ok (withdrawals s)"
  shows "statuses_ok (withdrawals (snd (approve_try env i b s)))"
proof (cases "getAccessToken (ap_token env) s")
  case (Pair r s1)
  then have w: "withdrawals s1 = withdrawals s"
    using getAccessToken_withdrawals [of "ap_token env" s] by simp
  have k: "\<And>x data. statuses_ok (withdrawals (snd (approve_record env i b data (emit x s1))))"
    by (rule approve_record_statuses) (simp add: emit_def w assms)
  show ?thesis
    using Pair w assms k
    by (auto simp: approve_try_def doc_get_def Let_def emit_def
        split: sum.splits option.splits)
qed

lemma mark_failed_statuses:
  assumes "statuses_ok (withdrawals s)"
  shows "statuses_ok (withdrawals (mark_failed env i e s))"
proof -
  have "\<And>d. known_status (field (spread d (failed_fields env e)) ''status'')"
    by (simp add: failed_record known_status_def)
  then show ?thesis
    using assms
    by (auto simp: mark_failed_def doc_update_def emit_def statuses_ok_put
        split: sum.splits option.splits)
qed

lemma approve_statuses:
  assumes "statuses_ok (withdrawals s)"
  shows "statuses_ok (withdrawals (snd (withdrawal_approve env i b s)))"
proof (cases "approve_try env i b s")
  case (Pair r s1)
  then have "statuses_ok (withdrawals s1)"
    using approve_try_statuses [OF assms, of env i b] by simp
  then show ?thesis
    using Pair
    by (auto simp: withdrawal_approve_def emit_def intro!: mark_failed_statuses
        split: sum.splits)
qed

lemma reject_statuses:
  assumes "statuses_ok (withdrawals s)"
  shows "statuses_ok (withdrawals (snd (withdrawal_reject env i b s)))"
proof -
  have "\<And>d. known_status (field (spread d (rejected_fields env b)) ''status'')"
    by (simp add: rejected_record known_status_def)
  then show ?thesis
    using assms
    by (auto simp: withdrawal_reject_def reject_try_def doc_get_def doc_update_def emit_def
        statuses_ok_put split: sum.splits option.splits)
qed

lemma handle_statuses:
  assumes "statuses_ok (withdrawals s)"
  shows "statuses_ok (withdrawals (snd (handle r s)))"
  using assms
  by (cases r)
    (simp_all add: payment_create_withdrawals request_statuses approve_statuses reject_statuses)

lemma run_statuses:
  assumes "statuses_ok (withdrawals s)"
  shows "statuses_ok (withdrawals (run s rs))"
  using assms
proof (induction rs arbitrary: s)
  case Nil
  then show ?case by (simp add: run_def)
next
  case (Cons r rs)
  have "statuses_ok (withdrawals (run (snd (handle r s)) rs))"
    by (rule Cons.IH) (rule handle_statuses [OF Cons.prems])
  then show ?case by (simp add: run_def)
qed

lemma status_partition:
  assumes "statuses_ok c"
  shows "length c =
           length (with_status ''pending'' c) + length (with_status ''approved'' c)
           + length (with_status ''rejected'' c) + length (with_status ''failed'' c)"
  using assms
  by (induction c) (auto simp: statuses_ok_def known_status_def with_status_def)

text \<open>
  C10. Starting from a collection in which every record has one of the four statuses (the
  empty collection of a fresh store is one), every run of Create, Approve and Reject
  requests, whatever the gateway, the store and the clock do, leaves a collection in
  which every record has status \<^verbatim>\<open>pending\<close>, \<^verbatim>\<open>approved\<close>, \<^verbatim>\<open>rejected\<close> or
  \<^verbatim>\<open>failed\<close>. The statistics read from it then report a total that is the sum of the
  four counts.
\<close>

theorem statuses_closed_stats_add_up:
  assumes "statuses_ok (withdrawals s)"
  shows "(\<forall>doc \<in> set (withdrawals (run s rs)).
            field (snd doc) ''status'' = JStr ''pending''
            \<or> field (snd doc) ''status'' = JStr ''approved''
            \<or> field (snd doc) ''status'' = JStr ''rejected''
            \<or> field (snd doc) ''status'' = JStr ''failed'')
       \<and> (\<exists>p a r f.
             fst (admin_stats None (run s rs)) =
               respond 200
                 (JObj [(''status'', JStr ''success''),
                        (''data'', JObj [(''total'', JNum (p + a + r + f)),
                                         (''pending'', JNum p),
                                         (''approved'', JNum a),
                                         (''rejected'', JNum r),
                                         (''failed'', JNum f)])]))"
proof
  have ok: "statuses_ok (withdrawals (run s rs))"
    by (rule run_statuses [OF assms])
  then show "\<forall>doc \<in> set (withdrawals (run s rs)).
      field (snd doc) ''status'' = JStr ''pending''
      \<or> field (snd doc) ''status'' = JStr ''approved''
      \<or> field (snd doc) ''status'' = JStr ''rejected''
      \<or> field (snd doc) ''status'' = JStr ''failed''"
    by (simp add: statuses_ok_def known_status_def list_all_iff)
  define c where "c = withdrawals (run s rs)"
  have "int (length c) =
      int (length (with_status ''pending'' c)) + int (length (with_status ''approved'' c))
      + int (length (with_status ''rejected'' c)) + int (length (with_status ''failed'' c))"
    using status_partition [of c] ok by (simp add: c_def)
  then have "fst (admin_stats None (run s rs)) =
      respond 200
        (JObj [(''status'', JStr ''success''),
               (''data'', JObj [(''total'', JNum (int (length (with_status ''pending'' c))
                                   + int (length (with_status ''approved'' c))
                                   + int (length (with_status ''rejected'' c))
                                   + int (length (with_status ''failed'' c)))),
                                (''pending'', JNum (int (length (with_status ''pending'' c)))),
                                (''approved'', JNum (int (length (with_status ''approved'' c)))),
                                (''rejected'', JNum (int (length (with_status ''rejected'' c)))),
                                (''failed'', JNum (int (length (with_status ''failed'' c))))])])"
    by (simp add: admin_stats_def Let_def c_def)
  then show "\<exists>p a r f.
      fst (admin_stats None (run s rs)) =
        respond 200
          (JObj [(''status'', JStr ''success''),
                 (''data'', JObj [(''total'', JNum (p + a + r + f)),
                                  (''pending'', JNum p),
                                  (''approved'', JNum a),
                                  (''rejected'', JNum r),
                                  (''failed'', JNum f)])])"
    by blast
qed

lemma scenario_statuses:
  "statuses (withdrawals (run server0 scenario)) =
     [JStr ''approved'', JStr ''rejected'', JStr ''failed'', JStr ''pending'']"
  by (simp add: statuses_def scenario_def run_def withdrawal_request_def
      withdrawal_request_try_def withdrawal_record_def submitted_def withdrawal_approve_def
      approve_try_def approve_record_def approved_def approved_fields_def requestData_def
      mark_failed_def failed_fields_def withdrawal_reject_def reject_try_def
      rejected_fields_def rejected_def reject_ok_def reject_body_def model_defs example_defs)

theorem statuses_closed_stats_add_up_witness:
  "statuses_ok (withdrawals server0)
   \<and> statuses (withdrawals (run server0 scenario)) =
       [JStr ''approved'', JStr ''rejected'', JStr ''failed'', JStr ''pending'']
   \<and> fst (admin_stats None (run server0 scenario)) =
       respond 200
         (JObj [(''status'', JStr ''success''),
                (''data'', JObj [(''total'', JNum 4), (''pending'', JNum 1),
                                 (''approved'', JNum 1), (''rejected'', JNum 1),
                                 (''failed'', JNum 1)])])"
proof -
  have h: "statuses_ok (withdrawals server0)"
    by (simp add: server0_def statuses_ok_def)
  note st = scenario_statuses
  have n: "\<And>x. length (with_status x (withdrawals (run server0 scenario))) =
      length (filter (\<lambda>v. v = JStr x) (statuses (withdrawals (run server0 scenario))))"
    by (simp add: with_status_def statuses_def length_filter_map comp_def)
  have len: "length (withdrawals (run server0 scenario)) = 4"
    using st [THEN arg_cong, of length] by (simp add: statuses_def)
  show ?thesis
    using statuses_closed_stats_add_up [OF h, of scenario] h st
    by (simp add: admin_stats_def Let_def n len)
qed

section \<open>Sanity checks of the model\<close>

lemma parseInt_examples:
  "parseInt (JStr ''500'') = JNum 500"
  "parseInt (JStr ''  -12abc'') = JNum (- 12)"
  "parseInt (JStr ''0x1f'') = JNum 31"
  "parseInt (JStr ''abc'') = JNaN"
  "parseInt (JArr [JStr ''7'', JNum 3]) = JNum 7"
  "parseInt JNull = JNaN"
  by (simp_all add: parse_int_text_def is_space_def digit_val_def)

text \<open>
  Approve, when everything goes through: whatever body the gateway answers with (the
  handler does not look at it), the record becomes \<^verbatim>\<open>approved\<close> and keeps that body as
  \<^verbatim>\<open>ezipay_response\<close>.
\<close>

lemma approve_success:
  assumes "ap_get_fault env = None"
    and "map_of (withdrawals s) i = Some d"
    and "field d ''status'' = JStr ''pending''"
    and "getAccessToken (ap_token env) s = (Inr token, s1)"
    and "ap_post env = Inr data"
    and "ap_update_fault env = None"
    and "ap_reget_fault env = None"
    and "to_iso (field d ''created_at'') = Inr c"
  shows "code (fst (withdrawal_approve env i b s)) = 200
       \<and> map_of (withdrawals (snd (withdrawal_approve env i b s))) i =
           Some (spread d (approved_fields env b data))"
proof -
  have w: "withdrawals s1 = withdrawals s"
    using getAccessToken_withdrawals [of "ap_token env" s] assms(4) by simp
  define s2 where "s2 = emit (HttpPost ''/send-money/create'' token (requestData d)) s1"
  define d' where "d' = spread d (approved_fields env b data)"
  have t: "approve_try env i b s = approve_record env i b data s2"
    using assms by (simp add: approve_try_def doc_get_def s2_def)
  have d2: "map_of (withdrawals s2) i = Some d"
    using assms(2) w by (simp add: s2_def emit_def)
  have upd: "doc_update (ap_update_fault env) (withdrawals s2) i (approved_fields env b data) =
      Inr (put i d' (withdrawals s2))"
    using assms(6) d2 by (simp add: doc_update_def d'_def)
  have rendered: "\<exists>u. and_then (doc_get (ap_reget_fault env) (put i d' (withdrawals s2)) i)
      (render i) = Inr u"
    using assms(7,8)
    by (simp add: doc_get_def and_then_def render_def map_of_put d'_def approved_record)
  then obtain u where "and_then (doc_get (ap_reget_fault env) (put i d' (withdrawals s2)) i)
      (render i) = Inr u" ..
  then have "approve_record env i b data s2 =
      (Inr (approved u), s2\<lparr>withdrawals := put i d' (withdrawals s2)\<rparr>)"
    by (simp add: approve_record_def upd)
  then show ?thesis
    by (simp add: withdrawal_approve_def t approved_def respond_def map_of_put d'_def)
qed

end
